theory Spec2Isabelle
  imports Complex_Main "HOL-Library.Sublist"
begin

section \<open>The analysis report (interface ResumeAnalysis of src/App.tsx)\<close>

text \<open>
  The nested object type of the source, one record per object level. JavaScript numbers
  are modelled as exact numbers: the scores as \<open>int\<close>, the ratio and every page
  coordinate as \<open>rat\<close>. Three names of the source are reserved words here and are
  renamed: the field \<open>keywords\<close> is \<open>keyword_analysis\<close>, the state variable
  \<open>file\<close> is \<open>uploaded\<close>, and the method \<open>doc.text\<close> is \<open>doc_text\<close>.
\<close>

record Feedback =
  fb_score :: int
  feedback :: "string list"

record Keywords =
  kw_score :: int
  found :: "string list"
  missing :: "string list"

record DetailedAnalysis =
  readability :: Feedback
  keyword_analysis :: Keywords
  experience :: Feedback
  education :: Feedback

record Suggestions =
  critical :: "string list"
  recommended :: "string list"
  optional :: "string list"

record SemanticAnalysis =
  measurableAchievements :: int
  skillsEfficiencyRatio :: rat
  impactVerbs :: "string list"
  industryKeywords :: "string list"

record ResumeAnalysis =
  score :: int
  fileName :: string
  filePreview :: string
  detailedAnalysis :: DetailedAnalysis
  softSkills :: "string list"
  hardSkills :: "string list"
  suggestions :: Suggestions
  semanticAnalysis :: SemanticAnalysis

text \<open>An uploaded browser file: its name and its bytes.\<close>

record File =
  file_name :: string
  file_bytes :: string

text \<open>The component state held by the three \<open>useState\<close> hooks of \<open>App\<close>.\<close>

record app_state =
  uploaded :: "File option"
  isDragging :: bool
  analysis :: "ResumeAnalysis option"

definition initial_state :: app_state where
  "initial_state = \<lparr>uploaded = None, isDragging = False, analysis = None\<rparr>"

section \<open>The output medium (the jsPDF document object)\<close>

text \<open>
  The library object the handler draws on is not part of the repository. Its state is
  modelled by what the handler can observe or cause: the page size, the number of pages
  (drawing goes to the last page added), the current font size and text colour, and the
  texts drawn so far, each with the page, the position and the style it was drawn with.
\<close>

datatype align = AlignLeft | AlignCenter

type_synonym rgb = "nat \<times> nat \<times> nat"

record text_item =
  it_page :: nat
  it_text :: string
  it_x :: rat
  it_y :: rat
  it_fontSize :: nat
  it_color :: rgb
  it_align :: align

record jsPDF =
  pageWidth :: rat
  pageHeight :: rat
  numPages :: nat
  fontSize :: nat
  textColor :: rgb
  items :: "text_item list"

text \<open>
  What the browser and the library supply to one invocation of the handler: the page
  size of a fresh document, the library's text-wrapping function \<open>splitTextToSize\<close>
  (taken as a parameter: it measures text with the library's font metrics), and the
  string that \<open>new Date().toLocaleDateString()\<close> returns.
\<close>

record environment =
  page_width :: rat
  page_height :: rat
  splitTextToSize :: "string \<Rightarrow> rat \<Rightarrow> string list"
  toLocaleDateString :: string

definition new_jsPDF :: "environment \<Rightarrow> jsPDF" where
  "new_jsPDF env =
     \<lparr>pageWidth = page_width env, pageHeight = page_height env, numPages = 1,
      fontSize = 16, textColor = (0, 0, 0), items = []\<rparr>"

definition setFontSize :: "nat \<Rightarrow> jsPDF \<Rightarrow> jsPDF" where
  "setFontSize n d = d\<lparr>fontSize := n\<rparr>"

definition setTextColor :: "rgb \<Rightarrow> jsPDF \<Rightarrow> jsPDF" where
  "setTextColor c d = d\<lparr>textColor := c\<rparr>"

definition addPage :: "jsPDF \<Rightarrow> jsPDF" where
  "addPage d = d\<lparr>numPages := numPages d + 1\<rparr>"

definition doc_text :: "string \<Rightarrow> rat \<Rightarrow> rat \<Rightarrow> align \<Rightarrow> jsPDF \<Rightarrow> jsPDF" where
  "doc_text s x y al d =
     d\<lparr>items := items d @
        [\<lparr>it_page = numPages d, it_text = s, it_x = x, it_y = y,
          it_fontSize = fontSize d, it_color = textColor d, it_align = al\<rparr>]\<rparr>"

text \<open>A file offered for download by \<open>doc.save\<close>: its name and the document.\<close>

type_synonym download = "string \<times> jsPDF"

definition save :: "string \<Rightarrow> jsPDF \<Rightarrow> download list \<Rightarrow> download list" where
  "save nm d ds = ds @ [(nm, d)]"

section \<open>String helpers of the host language\<close>

text \<open>\<open>Array.prototype.join\<close>.\<close>

fun join :: "string \<Rightarrow> string list \<Rightarrow> string" where
  "join sep [] = []"
| "join sep [x] = x"
| "join sep (x # y # ys) = x @ sep @ join sep (y # ys)"

text \<open>The decimal text of an integer, as a template literal prints it.\<close>

fun nat_digits :: "nat \<Rightarrow> string" where
  "nat_digits n =
     (if n < 10 then [''0123456789'' ! n]
      else nat_digits (n div 10) @ [''0123456789'' ! (n mod 10)])"

declare nat_digits.simps [simp del]

definition show_int :: "int \<Rightarrow> string" where
  "show_int i = (if i < 0 then ''-'' @ nat_digits (nat (- i)) else nat_digits (nat i))"

section \<open>The report renderer (handleDownloadReport)\<close>

definition lineHeight :: rat where
  "lineHeight = 10"

definition margin :: rat where
  "margin = 20"

text \<open>
  The bullet prefix of the template literal in \<open>addSection\<close>, byte for byte as the
  source file has it (seven bytes of UTF-8 before the space).
\<close>

definition bullet :: string where
  "bullet = [CHR 0xC3, CHR 0xA2, CHR 0xE2, CHR 0x82, CHR 0xAC, CHR 0xC2, CHR 0xA2]"

definition footerText :: string where
  "footerText = ''Generated by Resume Check - Comprehensive ATS Analysis Report''"

text \<open>The mutable pair the closure \<open>addSection\<close> captures: the document and \<open>yPos\<close>.\<close>

record layout =
  doc :: jsPDF
  yPos :: rat

text \<open>The body of the inner \<open>lines.forEach\<close>: page-break check, draw, advance.\<close>

definition emit_line :: "string \<Rightarrow> layout \<Rightarrow> layout" where
  "emit_line line st =
     (let st1 = (if yPos st > pageHeight (doc st) - margin
                 then \<lparr>doc = addPage (doc st), yPos = margin\<rparr> else st)
      in \<lparr>doc = doc_text (bullet @ '' '' @ line) (margin + 5) (yPos st1) AlignLeft (doc st1),
          yPos = yPos st1 + lineHeight\<rparr>)"

text \<open>The body of the outer \<open>content.forEach\<close>; \<open>pw\<close> is the captured \<open>pageWidth\<close>.\<close>

definition emit_item :: "environment \<Rightarrow> rat \<Rightarrow> string \<Rightarrow> layout \<Rightarrow> layout" where
  "emit_item env pw item st =
     fold emit_line (splitTextToSize env item (pw - (margin * 2) - 10)) st"

definition addSection :: "environment \<Rightarrow> rat \<Rightarrow> string \<Rightarrow> string list \<Rightarrow> layout \<Rightarrow> layout" where
  "addSection env pw title content st =
     (let d1 = setTextColor (0, 128, 128) (setFontSize 14 (doc st));
          d2 = doc_text title margin (yPos st) AlignLeft d1;
          y1 = yPos st + lineHeight;
          d3 = setTextColor (0, 0, 0) (setFontSize 12 d2);
          st1 = fold (emit_item env pw) content \<lparr>doc = d3, yPos = y1\<rparr>
      in st1\<lparr>yPos := yPos st1 + lineHeight\<rparr>)"

text \<open>Title, file information and overall score: the lines before the sections.\<close>

definition title_and_summary :: "environment \<Rightarrow> ResumeAnalysis \<Rightarrow> layout" where
  "title_and_summary env a =
     (let d0 = new_jsPDF env;
          y0 = 20;
          d1 = doc_text ''Resume Analysis Report'' margin y0 AlignLeft
                 (setTextColor (0, 128, 128) (setFontSize 24 d0));
          y1 = y0 + lineHeight * 2;
          d2 = doc_text (''File Name: '' @ fileName a) margin y1 AlignLeft
                 (setTextColor (0, 0, 0) (setFontSize 12 d1));
          y2 = y1 + lineHeight;
          d3 = doc_text (''Analysis Date: '' @ toLocaleDateString env) margin y2 AlignLeft d2;
          y3 = y2 + lineHeight * 2;
          d4 = doc_text (''Overall ATS Score: '' @ show_int (score a) @ ''/100'') margin y3 AlignLeft
                 (setFontSize 16 d3);
          y4 = y3 + lineHeight * 2
      in \<lparr>doc = d4, yPos = y4\<rparr>)"

text \<open>The eleven calls of \<open>addSection\<close>, in the order the source makes them.\<close>

definition add_all_sections :: "environment \<Rightarrow> rat \<Rightarrow> ResumeAnalysis \<Rightarrow> layout \<Rightarrow> layout" where
  "add_all_sections env pw a st =
     (let s1 = addSection env pw ''Readability Analysis''
                 (feedback (readability (detailedAnalysis a))) st;
          s2 = addSection env pw ''Keyword Analysis''
                 [''Found Keywords: '' @ join '', '' (found (keyword_analysis (detailedAnalysis a))),
                  ''Missing Important Keywords: '' @
                    join '', '' (missing (keyword_analysis (detailedAnalysis a)))] s1;
          s3 = addSection env pw ''Experience Analysis''
                 (feedback (experience (detailedAnalysis a))) s2;
          s4 = addSection env pw ''Education Analysis''
                 (feedback (education (detailedAnalysis a))) s3;
          s5 = addSection env pw ''Impact Verbs Used'' (impactVerbs (semanticAnalysis a)) s4;
          s6 = addSection env pw ''Industry-Specific Keywords''
                 (industryKeywords (semanticAnalysis a)) s5;
          s7 = addSection env pw ''Critical Improvements Needed'' (critical (suggestions a)) s6;
          s8 = addSection env pw ''Recommended Improvements'' (recommended (suggestions a)) s7;
          s9 = addSection env pw ''Optional Enhancements'' (optional (suggestions a)) s8;
          s10 = addSection env pw ''Hard Skills'' (hardSkills a) s9;
          s11 = addSection env pw ''Soft Skills'' (softSkills a) s10
      in s11)"

text \<open>The footer, drawn after the last section on whichever page is current.\<close>

definition footer :: "rat \<Rightarrow> jsPDF \<Rightarrow> jsPDF" where
  "footer pw d =
     (let d1 = setTextColor (128, 128, 128) (setFontSize 10 d)
      in doc_text footerText (pw / 2) (pageHeight d1 - 10) AlignCenter d1)"

text \<open>The document as it stands when \<open>doc.save\<close> is called.\<close>

definition report_document :: "environment \<Rightarrow> ResumeAnalysis \<Rightarrow> jsPDF" where
  "report_document env a =
     (let st0 = title_and_summary env a;
          pw = pageWidth (doc st0)
      in footer pw (doc (add_all_sections env pw a st0)))"

text \<open>
  The click handler. It reads the component state and changes nothing but the list of
  files offered for download; with no analysis it returns at once.
\<close>

definition handleDownloadReport ::
  "environment \<Rightarrow> app_state \<Rightarrow> download list \<Rightarrow> download list" where
  "handleDownloadReport env s ds =
     (case analysis s of
        None \<Rightarrow> ds
      | Some a \<Rightarrow> save ''detailed-resume-analysis.pdf'' (report_document env a) ds)"

section \<open>The analysis producer (analyzeResume)\<close>

definition simulated_result :: "string \<Rightarrow> string \<Rightarrow> ResumeAnalysis" where
  "simulated_result fname preview =
     \<lparr>score = 85,
      fileName = fname,
      filePreview = preview,
      detailedAnalysis =
        \<lparr>readability =
           \<lparr>fb_score = 90,
            feedback =
              [''Good use of clear, concise language'',
               ''Professional tone maintained throughout'',
               ''Consider breaking down longer paragraphs for better readability'',
               ''Some sentences could be more concise'']\<rparr>,
         keyword_analysis =
           \<lparr>kw_score = 85,
            found = [''project management'', ''agile'', ''leadership'', ''strategic planning''],
            missing = [''data analysis'', ''budget management'', ''stakeholder communication'']\<rparr>,
         experience =
           \<lparr>fb_score = 88,
            feedback =
              [''Strong demonstration of progressive responsibility'',
               ''Quantifiable achievements well documented'',
               ''Consider adding more specific project outcomes'',
               ''Include technology stack details for technical projects'']\<rparr>,
         education =
           \<lparr>fb_score = 95,
            feedback =
              [''Relevant certifications clearly listed'',
               ''Academic achievements well presented'',
               ''Consider adding relevant coursework section'',
               ''Include any academic projects related to target role'']\<rparr>\<rparr>,
      softSkills =
        [''Leadership'', ''Communication'', ''Problem Solving'', ''Teamwork'', ''Adaptability'',
         ''Time Management'', ''Critical Thinking''],
      hardSkills =
        [''React'', ''TypeScript'', ''Node.js'', ''Python'', ''Project Management'',
         ''Agile Methodologies'', ''Data Analysis''],
      suggestions =
        \<lparr>critical =
           [''Add more quantifiable achievements with specific metrics'',
            ''Include relevant certifications and their dates'',
            ''Optimize keywords for ATS systems''],
         recommended =
           [''Enhance professional summary with industry-specific keywords'',
            ''Add a skills matrix section'',
            ''Include relevant volunteer work or side projects''],
         optional =
           [''Consider adding a brief personal statement'',
            ''Include relevant social media profiles'',
            ''Add language proficiency levels'']\<rparr>,
      semanticAnalysis =
        \<lparr>measurableAchievements = 6,
         skillsEfficiencyRatio = 1,
         impactVerbs =
           [''Led'', ''Implemented'', ''Developed'', ''Managed'', ''Orchestrated'', ''Streamlined''],
         industryKeywords =
           [''Digital Transformation'', ''Agile Development'', ''Cross-functional Teams'',
            ''Strategic Planning'']\<rparr>\<rparr>"

definition analyzeResume :: "File \<Rightarrow> string \<Rightarrow> app_state \<Rightarrow> app_state" where
  "analyzeResume f preview s = s\<lparr>analysis := Some (simulated_result (file_name f) preview)\<rparr>"

section \<open>Notions the properties are stated with\<close>

text \<open>The width \<open>addSection\<close> wraps to: page width minus both margins minus ten.\<close>

definition printable_width :: "rat \<Rightarrow> rat" where
  "printable_width pw = pw - (margin * 2) - 10"

text \<open>The text \<open>emit_line\<close> draws for a wrapped line.\<close>

definition bulleted :: "string \<Rightarrow> string" where
  "bulleted l = bullet @ '' '' @ l"

text \<open>All wrapped lines of a section's content, in drawing order.\<close>

definition wrapped_lines :: "environment \<Rightarrow> rat \<Rightarrow> string list \<Rightarrow> string list" where
  "wrapped_lines env pw content =
     concat (map (\<lambda>item. splitTextToSize env item (printable_width pw)) content)"

text \<open>The title and content of the eleven sections, as the calls pass them.\<close>

definition report_sections :: "ResumeAnalysis \<Rightarrow> (string \<times> string list) list" where
  "report_sections a =
     [(''Readability Analysis'', feedback (readability (detailedAnalysis a))),
      (''Keyword Analysis'',
         [''Found Keywords: '' @ join '', '' (found (keyword_analysis (detailedAnalysis a))),
          ''Missing Important Keywords: '' @
            join '', '' (missing (keyword_analysis (detailedAnalysis a)))]),
      (''Experience Analysis'', feedback (experience (detailedAnalysis a))),
      (''Education Analysis'', feedback (education (detailedAnalysis a))),
      (''Impact Verbs Used'', impactVerbs (semanticAnalysis a)),
      (''Industry-Specific Keywords'', industryKeywords (semanticAnalysis a)),
      (''Critical Improvements Needed'', critical (suggestions a)),
      (''Recommended Improvements'', recommended (suggestions a)),
      (''Optional Enhancements'', optional (suggestions a)),
      (''Hard Skills'', hardSkills a),
      (''Soft Skills'', softSkills a)]"

definition add_sections ::
  "environment \<Rightarrow> rat \<Rightarrow> (string \<times> string list) list \<Rightarrow> layout \<Rightarrow> layout" where
  "add_sections env pw secs st = fold (\<lambda>sec. addSection env pw (fst sec) (snd sec)) secs st"

text \<open>The combined number of wrapped content lines of a report.\<close>

definition wrapped_line_count :: "environment \<Rightarrow> ResumeAnalysis \<Rightarrow> nat" where
  "wrapped_line_count env a =
     length (concat (map (\<lambda>sec. wrapped_lines env (page_width env) (snd sec))
       (report_sections a)))"

text \<open>One page's capacity in lines, as the specification computes it.\<close>

definition capacity :: "environment \<Rightarrow> int" where
  "capacity env = \<lfloor>(page_height env - margin - margin) / lineHeight\<rfloor>"

text \<open>
  A bulleted content line is recognised by where and how \<open>emit_line\<close> draws it; the
  outline of a document is the font size and the text of every drawn line, in order.
\<close>

definition is_content :: "text_item \<Rightarrow> bool" where
  "is_content i = (it_x i = margin + 5 \<and> it_fontSize i = 12)"

definition outline :: "jsPDF \<Rightarrow> (nat \<times> string) list" where
  "outline d = map (\<lambda>i. (it_fontSize i, it_text i)) (items d)"

definition section_outline :: "environment \<Rightarrow> rat \<Rightarrow> string \<Rightarrow> string list \<Rightarrow> (nat \<times> string) list" where
  "section_outline env pw title content =
     (14, title) # map (\<lambda>l. (12, bulleted l)) (wrapped_lines env pw content)"

definition footer_item :: "jsPDF \<Rightarrow> text_item" where
  "footer_item d =
     \<lparr>it_page = numPages d, it_text = footerText, it_x = pageWidth d / 2,
      it_y = pageHeight d - 10, it_fontSize = 10, it_color = (128, 128, 128),
      it_align = AlignCenter\<rparr>"

text \<open>The generation-timestamp line, and a document compared without it.\<close>

definition is_timestamp :: "text_item \<Rightarrow> bool" where
  "is_timestamp i = prefix ''Analysis Date: '' (it_text i)"

definition exclude_timestamp :: "jsPDF \<Rightarrow> jsPDF" where
  "exclude_timestamp d = d\<lparr>items := filter (\<lambda>i. \<not> is_timestamp i) (items d)\<rparr>"

text \<open>Putting already drawn lines in front of a layout's document.\<close>

definition prepend :: "text_item list \<Rightarrow> layout \<Rightarrow> layout" where
  "prepend xs st = st\<lparr>doc := (doc st)\<lparr>items := xs @ items (doc st)\<rparr>\<rparr>"

text \<open>A report all of whose list fields are empty.\<close>

definition all_lists_empty :: "ResumeAnalysis \<Rightarrow> bool" where
  "all_lists_empty a =
     (feedback (readability (detailedAnalysis a)) = [] \<and>
      found (keyword_analysis (detailedAnalysis a)) = [] \<and>
      missing (keyword_analysis (detailedAnalysis a)) = [] \<and>
      feedback (experience (detailedAnalysis a)) = [] \<and>
      feedback (education (detailedAnalysis a)) = [] \<and>
      impactVerbs (semanticAnalysis a) = [] \<and>
      industryKeywords (semanticAnalysis a) = [] \<and>
      critical (suggestions a) = [] \<and>
      recommended (suggestions a) = [] \<and>
      optional (suggestions a) = [] \<and>
      hardSkills a = [] \<and>
      softSkills a = [])"

text \<open>
  The stages of one call spelled out as layouts: the heading of a section drawn and the
  styles reset for its content; the trailing line height after a section; the layout
  after the eleven sections; and the layout of a document that holds the score line
  only, from which the remaining drawing is the same whatever was drawn before.
\<close>

definition heading_drawn :: "string \<Rightarrow> layout \<Rightarrow> layout" where
  "heading_drawn title st =
     \<lparr>doc = setTextColor (0, 0, 0) (setFontSize 12
              (doc_text title margin (yPos st) AlignLeft
                 (setTextColor (0, 128, 128) (setFontSize 14 (doc st))))),
      yPos = yPos st + lineHeight\<rparr>"

definition trailing_space :: "layout \<Rightarrow> layout" where
  "trailing_space st = st\<lparr>yPos := yPos st + lineHeight\<rparr>"

definition sections_done :: "environment \<Rightarrow> ResumeAnalysis \<Rightarrow> layout" where
  "sections_done env a =
     add_sections env (page_width env) (report_sections a) (title_and_summary env a)"

definition score_drawn :: "environment \<Rightarrow> ResumeAnalysis \<Rightarrow> layout" where
  "score_drawn env a =
     \<lparr>doc = \<lparr>pageWidth = page_width env, pageHeight = page_height env, numPages = 1,
             fontSize = 16, textColor = (0, 0, 0),
             items = [\<lparr>it_page = 1, it_text = ''Overall ATS Score: '' @ show_int (score a) @ ''/100'',
        it_x = 20, it_y = 70, it_fontSize = 16, it_color = (0, 0, 0), it_align = AlignLeft\<rparr>]\<rparr>,
      yPos = 90\<rparr>"

definition after_summary :: "environment \<Rightarrow> ResumeAnalysis \<Rightarrow> jsPDF" where
  "after_summary env a =
     footer (page_width env)
       (doc (add_sections env (page_width env) (report_sections a) (score_drawn env a)))"

text \<open>
  The item \<open>emit_line\<close> draws for a wrapped line in a given layout: on the next page at
  the top margin when the cursor is beyond the bottom-margin threshold, at the cursor
  otherwise.
\<close>

definition line_item :: "layout \<Rightarrow> string \<Rightarrow> text_item" where
  "line_item st l =
     \<lparr>it_page = (if yPos st > pageHeight (doc st) - margin then numPages (doc st) + 1
                  else numPages (doc st)),
      it_text = bulleted l, it_x = margin + 5,
      it_y = (if yPos st > pageHeight (doc st) - margin then margin else yPos st),
      it_fontSize = fontSize (doc st), it_color = textColor (doc st), it_align = AlignLeft\<rparr>"

text \<open>Every bulleted content line lies at or above the bottom-margin threshold.\<close>

definition content_fits :: "jsPDF \<Rightarrow> bool" where
  "content_fits d = (\<forall>i \<in> set (items d). is_content i \<longrightarrow> it_y i \<le> pageHeight d - margin)"

text \<open>What marks the footer: its text, its small size, its centring or its grey.\<close>

definition footer_like :: "text_item \<Rightarrow> bool" where
  "footer_like i =
     (it_text i = footerText \<or> it_fontSize i = 10 \<or> it_align i = AlignCenter \<or>
      it_color i = (128, 128, 128))"

text \<open>The words of a string: the maximal runs of characters other than the space.\<close>

fun words_acc :: "string \<Rightarrow> string \<Rightarrow> string list" where
  "words_acc cur [] = (if cur = [] then [] else [cur])"
| "words_acc cur (c # cs) =
     (if c = CHR '' '' then (if cur = [] then words_acc [] cs else cur # words_acc [] cs)
      else words_acc (cur @ [c]) cs)"

definition words :: "string \<Rightarrow> string list" where
  "words s = words_acc [] s"




section \<open>Concrete inputs\<close>

text \<open>
  The page of a default jsPDF document is A4 in millimetres: 595.28 by 841.89 points at
  72/25.4 points per millimetre. \<open>no_wrap\<close> stands for a medium on which every string
  fits the printable width, so that each item is one line.
\<close>

definition no_wrap :: "string \<Rightarrow> rat \<Rightarrow> string list" where
  "no_wrap s w = [s]"

definition a4 :: environment where
  "a4 = \<lparr>page_width = 945007 / 4500, page_height = 3564001 / 12000,
          splitTextToSize = no_wrap, toLocaleDateString = ''11/2/2026''\<rparr>"

definition empty_report :: ResumeAnalysis where
  "empty_report =
     \<lparr>score = 0, fileName = ''cv.pdf'', filePreview = [],
      detailedAnalysis =
        \<lparr>readability = \<lparr>fb_score = 0, feedback = []\<rparr>,
         keyword_analysis = \<lparr>kw_score = 0, found = [], missing = []\<rparr>,
         experience = \<lparr>fb_score = 0, feedback = []\<rparr>,
         education = \<lparr>fb_score = 0, feedback = []\<rparr>\<rparr>,
      softSkills = [], hardSkills = [],
      suggestions = \<lparr>critical = [], recommended = [], optional = []\<rparr>,
      semanticAnalysis =
        \<lparr>measurableAchievements = 0, skillsEfficiencyRatio = 0, impactVerbs = [],
         industryKeywords = []\<rparr>\<rparr>"

definition cv_file :: File where
  "cv_file = \<lparr>file_name = ''cv.pdf'', file_bytes = ''%PDF-1.4''\<rparr>"

text \<open>
  A medium with a fixed-pitch font, two millimetres a character, that wraps greedily at
  spaces; a line of the built-in report that is wider than the printable width on it;
  and a layout whose cursor stands on the last line that fits an A4 page.
\<close>

definition mono_width :: "string \<Rightarrow> rat" where
  "mono_width s = 2 * of_nat (length s)"

fun fill_lines :: "(string \<Rightarrow> rat) \<Rightarrow> rat \<Rightarrow> string \<Rightarrow> string list \<Rightarrow> string list" where
  "fill_lines width w cur [] = (if cur = [] then [] else [cur])"
| "fill_lines width w cur (x # xs) =
     (if cur = [] then fill_lines width w x xs
      else if width (cur @ '' '' @ x) \<le> w then fill_lines width w (cur @ '' '' @ x) xs
      else cur # fill_lines width w x xs)"

definition greedy_wrap :: "string \<Rightarrow> rat \<Rightarrow> string list" where
  "greedy_wrap s w = fill_lines mono_width w [] (words s)"

definition a4_mono :: environment where
  "a4_mono = a4\<lparr>splitTextToSize := greedy_wrap\<rparr>"


definition near_bottom :: layout where
  "near_bottom = \<lparr>doc = setFontSize 12 (new_jsPDF a4_mono), yPos = 270\<rparr>"



text \<open>A layout whose cursor has passed the bottom-margin threshold of an A4 page.\<close>

definition past_threshold :: layout where
  "past_threshold = \<lparr>doc = setFontSize 12 (new_jsPDF a4), yPos = 280\<rparr>"

section \<open>Drawing wrapped lines\<close>

text \<open>
  One line: what \<open>emit_line\<close> keeps, what it appends, and what follows when the page
  count does not change. Then the same for a list of lines, by induction with the
  layout generalised.
\<close>

lemma emit_line_fields:
  "pageHeight (doc (emit_line l st)) = pageHeight (doc st)"
  "pageWidth (doc (emit_line l st)) = pageWidth (doc st)"
  "fontSize (doc (emit_line l st)) = fontSize (doc st)"
  "textColor (doc (emit_line l st)) = textColor (doc st)"
  by (simp_all add: emit_line_def Let_def doc_text_def addPage_def)

lemma emit_line_pages: "numPages (doc st) \<le> numPages (doc (emit_line l st))"
  by (simp add: emit_line_def Let_def doc_text_def addPage_def)

lemma emit_line_same_page:
  assumes "numPages (doc (emit_line l st)) = numPages (doc st)"
  shows "yPos st \<le> pageHeight (doc st) - margin" and "yPos (emit_line l st) = yPos st + lineHeight"
  using assms by (auto simp: emit_line_def Let_def doc_text_def addPage_def split: if_splits)

lemma emit_line_items:
  "items (doc (emit_line l st)) =
     items (doc st) @
       [\<lparr>it_page = (if yPos st > pageHeight (doc st) - margin then numPages (doc st) + 1
                    else numPages (doc st)),
         it_text = bulleted l, it_x = margin + 5,
         it_y = (if yPos st > pageHeight (doc st) - margin then margin else yPos st),
         it_fontSize = fontSize (doc st), it_color = textColor (doc st), it_align = AlignLeft\<rparr>]"
  by (simp add: emit_line_def Let_def doc_text_def addPage_def bulleted_def)

lemma emit_line_line_item: "items (doc (emit_line l st)) = items (doc st) @ [line_item st l]"
  by (simp add: emit_line_items line_item_def)

lemma emit_line_break:
  assumes "pageHeight (doc st) - margin < yPos st"
  shows "numPages (doc (emit_line l st)) = numPages (doc st) + 1"
    and "yPos (emit_line l st) = margin + lineHeight"
    and "it_page (line_item st l) = numPages (doc st) + 1"
    and "it_y (line_item st l) = margin"
  using assms by (simp_all add: emit_line_def Let_def doc_text_def addPage_def line_item_def)

lemma emit_line_stay:
  assumes "\<not> pageHeight (doc st) - margin < yPos st"
  shows "numPages (doc (emit_line l st)) = numPages (doc st)"
    and "yPos (emit_line l st) = yPos st + lineHeight"
    and "it_page (line_item st l) = numPages (doc st)"
    and "it_y (line_item st l) = yPos st"
  using assms by (simp_all add: emit_line_def Let_def doc_text_def addPage_def line_item_def)


lemma fold_emit_line_fields:
  "pageHeight (doc (fold emit_line ls st)) = pageHeight (doc st) \<and>
   pageWidth (doc (fold emit_line ls st)) = pageWidth (doc st) \<and>
   fontSize (doc (fold emit_line ls st)) = fontSize (doc st) \<and>
   textColor (doc (fold emit_line ls st)) = textColor (doc st)"
  by (induction ls arbitrary: st) (simp_all add: emit_line_fields)

lemma fold_emit_line_pages: "numPages (doc st) \<le> numPages (doc (fold emit_line ls st))"
proof (induction ls arbitrary: st)
  case Nil
  show ?case by simp
next
  case (Cons l ls)
  have "numPages (doc st) \<le> numPages (doc (emit_line l st))" by (rule emit_line_pages)
  also have "\<dots> \<le> numPages (doc (fold emit_line ls (emit_line l st)))" by (rule Cons.IH)
  finally show ?case by simp
qed

lemma fold_emit_line_same_page:
  assumes "numPages (doc (fold emit_line ls st)) = numPages (doc st)"
  shows "yPos (fold emit_line ls st) = yPos st + lineHeight * of_nat (length ls) \<and>
         (ls \<noteq> [] \<longrightarrow> yPos (fold emit_line ls st) - lineHeight \<le> pageHeight (doc st) - margin)"
  using assms
proof (induction ls arbitrary: st)
  case Nil
  show ?case by simp
next
  case (Cons l ls)
  let ?st1 = "emit_line l st"
  have a: "numPages (doc st) \<le> numPages (doc ?st1)" by (rule emit_line_pages)
  have b: "numPages (doc ?st1) \<le> numPages (doc (fold emit_line ls ?st1))"
    by (rule fold_emit_line_pages)
  from Cons.prems have c: "numPages (doc (fold emit_line ls ?st1)) = numPages (doc st)" by simp
  from a b c have same1: "numPages (doc ?st1) = numPages (doc st)" by linarith
  with c have same2: "numPages (doc (fold emit_line ls ?st1)) = numPages (doc ?st1)" by simp
  note step = emit_line_same_page [OF same1]
  note ih = Cons.IH [OF same2]
  show ?case
  proof (cases "ls = []")
    case True
    with step show ?thesis by simp
  next
    case False
    with ih step show ?thesis by (simp add: emit_line_fields algebra_simps)
  qed
qed

lemma fold_emit_line_fits:
  assumes "ls \<noteq> [] \<Longrightarrow>
     yPos st + lineHeight * of_nat (length ls) - lineHeight \<le> pageHeight (doc st) - margin"
  shows "numPages (doc (fold emit_line ls st)) = numPages (doc st)"
  using assms
proof (induction ls arbitrary: st)
  case Nil
  show ?case by simp
next
  case (Cons l ls)
  have "0 \<le> lineHeight * of_nat (length ls)" by (simp add: lineHeight_def)
  with Cons.prems have fit: "yPos st \<le> pageHeight (doc st) - margin"
    by (simp add: algebra_simps)
  then have step: "numPages (doc (emit_line l st)) = numPages (doc st)"
    "yPos (emit_line l st) = yPos st + lineHeight"
    by (simp_all add: emit_line_def Let_def doc_text_def)
  have "numPages (doc (fold emit_line ls (emit_line l st))) = numPages (doc (emit_line l st))"
  proof (rule Cons.IH)
    assume "ls \<noteq> []"
    from Cons.prems show "yPos (emit_line l st) + lineHeight * of_nat (length ls) - lineHeight
        \<le> pageHeight (doc (emit_line l st)) - margin"
      by (simp add: step emit_line_fields algebra_simps)
  qed
  with step show ?case by simp
qed

lemma fold_emit_line_snoc: "fold emit_line (ls @ [l]) st = emit_line l (fold emit_line ls st)"
  by simp

lemma fold_emit_line_each:
  "items (doc (fold emit_line ls st)) =
     items (doc st) @
       map (\<lambda>k. line_item (fold emit_line (take k ls) st) (ls ! k)) [0..<length ls]"
proof (induction ls rule: rev_induct)
  case Nil
  show ?case by simp
next
  case (snoc l ls)
  have same: "map (\<lambda>k. line_item (fold emit_line (take k (ls @ [l])) st) ((ls @ [l]) ! k))
        [0..<length ls]
      = map (\<lambda>k. line_item (fold emit_line (take k ls) st) (ls ! k)) [0..<length ls]"
    by (rule map_cong) (simp_all add: nth_append)
  have "items (doc (fold emit_line (ls @ [l]) st)) =
      items (doc (fold emit_line ls st)) @ [line_item (fold emit_line ls st) l]"
    by (simp only: fold_emit_line_snoc emit_line_line_item)
  also have "\<dots> = items (doc st) @
      map (\<lambda>k. line_item (fold emit_line (take k ls) st) (ls ! k)) [0..<length ls] @
      [line_item (fold emit_line ls st) l]"
    by (simp only: snoc.IH append_assoc)
  also have "map (\<lambda>k. line_item (fold emit_line (take k ls) st) (ls ! k)) [0..<length ls] @
      [line_item (fold emit_line ls st) l] =
      map (\<lambda>k. line_item (fold emit_line (take k (ls @ [l])) st) ((ls @ [l]) ! k))
        [0..<length (ls @ [l])]"
    unfolding same [symmetric] by simp
  finally show ?case .
qed

lemma fold_emit_line_prefix: "prefix (items (doc st)) (items (doc (fold emit_line ls st)))"
  by (simp add: fold_emit_line_each)

lemma outline_fold_emit_line:
  "outline (doc (fold emit_line ls st)) =
     outline (doc st) @ map (\<lambda>l. (fontSize (doc st), bulleted l)) ls"
  by (induction ls arbitrary: st) (simp_all add: outline_def emit_line_items emit_line_fields)

lemma fold_emit_item:
  "fold (emit_item env pw) content st = fold emit_line (wrapped_lines env pw content) st"
  by (induction content arbitrary: st)
     (simp_all add: wrapped_lines_def emit_item_def printable_width_def)

lemma wrapped_lines_ge:
  assumes "\<And>s w. splitTextToSize env s w \<noteq> []"
  shows "length c \<le> length (wrapped_lines env pw c)"
proof (induction c)
  case Nil
  show ?case by (simp add: wrapped_lines_def)
next
  case (Cons x c)
  have "1 \<le> length (splitTextToSize env x (printable_width pw))"
    using assms [of x "printable_width pw"] by (cases "splitTextToSize env x (printable_width pw)") simp_all
  with Cons show ?case by (simp add: wrapped_lines_def)
qed

section \<open>Sections\<close>

lemma addSection_unfold:
  "addSection env pw title content st =
     (fold emit_line (wrapped_lines env pw content) (heading_drawn title st))
       \<lparr>yPos := yPos (fold emit_line (wrapped_lines env pw content) (heading_drawn title st))
                 + lineHeight\<rparr>"
  by (simp add: addSection_def Let_def fold_emit_item heading_drawn_def)

lemma addSection_record:
  "addSection env pw t c st =
     trailing_space (fold emit_line (wrapped_lines env pw c) (heading_drawn t st))"
  by (simp add: addSection_unfold trailing_space_def)

lemma heading_drawn_fields:
  "pageHeight (doc (heading_drawn t st)) = pageHeight (doc st)"
  "pageWidth (doc (heading_drawn t st)) = pageWidth (doc st)"
  "numPages (doc (heading_drawn t st)) = numPages (doc st)"
  "fontSize (doc (heading_drawn t st)) = 12"
  "textColor (doc (heading_drawn t st)) = (0, 0, 0)"
  "yPos (heading_drawn t st) = yPos st + lineHeight"
  "items (doc (heading_drawn t st)) =
     items (doc st) @
       [\<lparr>it_page = numPages (doc st), it_text = t, it_x = margin, it_y = yPos st,
         it_fontSize = 14, it_color = (0, 128, 128), it_align = AlignLeft\<rparr>]"
  by (simp_all add: heading_drawn_def setTextColor_def setFontSize_def doc_text_def)

lemma addSection_fields:
  "pageHeight (doc (addSection env pw t c st)) = pageHeight (doc st)"
  "pageWidth (doc (addSection env pw t c st)) = pageWidth (doc st)"
  "fontSize (doc (addSection env pw t c st)) = 12"
  "textColor (doc (addSection env pw t c st)) = (0, 0, 0)"
  by (simp_all add: addSection_unfold fold_emit_line_fields heading_drawn_fields)

lemma addSection_pages: "numPages (doc st) \<le> numPages (doc (addSection env pw t c st))"
  using fold_emit_line_pages [of "heading_drawn t st" "wrapped_lines env pw c"]
  by (simp add: addSection_unfold heading_drawn_fields)

lemma addSection_same_page:
  assumes "numPages (doc (addSection env pw t c st)) = numPages (doc st)"
  shows "yPos (addSection env pw t c st) =
           yPos st + lineHeight * 2 + lineHeight * of_nat (length (wrapped_lines env pw c)) \<and>
         (wrapped_lines env pw c \<noteq> [] \<longrightarrow>
            yPos st + lineHeight * of_nat (length (wrapped_lines env pw c))
              \<le> pageHeight (doc st) - margin)"
proof -
  let ?h = "heading_drawn t st"
  let ?ls = "wrapped_lines env pw c"
  from assms have "numPages (doc (fold emit_line ?ls ?h)) = numPages (doc ?h)"
    by (simp add: addSection_unfold heading_drawn_fields)
  from fold_emit_line_same_page [OF this]
  have y: "yPos (fold emit_line ?ls ?h) = yPos ?h + lineHeight * of_nat (length ?ls)"
    and fit: "?ls \<noteq> [] \<Longrightarrow> yPos (fold emit_line ?ls ?h) - lineHeight \<le> pageHeight (doc ?h) - margin"
    by simp_all
  have h: "yPos ?h = yPos st + lineHeight" "pageHeight (doc ?h) = pageHeight (doc st)"
    by (simp_all add: heading_drawn_fields)
  have "yPos (addSection env pw t c st) = yPos (fold emit_line ?ls ?h) + lineHeight"
    by (simp add: addSection_unfold)
  with y h have first: "yPos (addSection env pw t c st) =
      yPos st + lineHeight * 2 + lineHeight * of_nat (length ?ls)" by simp
  have second: "yPos st + lineHeight * of_nat (length ?ls) \<le> pageHeight (doc st) - margin"
    if "?ls \<noteq> []"
    using fit [OF that] y h by simp
  from first second show ?thesis by blast
qed

lemma addSection_fits:
  assumes "wrapped_lines env pw c \<noteq> [] \<Longrightarrow>
     yPos st + lineHeight * of_nat (length (wrapped_lines env pw c))
       \<le> pageHeight (doc st) - margin"
  shows "numPages (doc (addSection env pw t c st)) = numPages (doc st)"
proof -
  have "numPages (doc (fold emit_line (wrapped_lines env pw c) (heading_drawn t st))) =
      numPages (doc (heading_drawn t st))"
    by (rule fold_emit_line_fits) (use assms in \<open>simp add: heading_drawn_fields\<close>)
  then show ?thesis by (simp add: addSection_unfold heading_drawn_fields)
qed

lemma addSection_empty:
  "yPos (addSection env pw t [] st) = yPos st + lineHeight + lineHeight"
  "numPages (doc (addSection env pw t [] st)) = numPages (doc st)"
  "items (doc (addSection env pw t [] st)) =
     items (doc st) @
       [\<lparr>it_page = numPages (doc st), it_text = t, it_x = margin, it_y = yPos st,
         it_fontSize = 14, it_color = (0, 128, 128), it_align = AlignLeft\<rparr>]"
  by (simp_all add: addSection_unfold wrapped_lines_def heading_drawn_fields)

lemma addSection_prefix: "prefix (items (doc st)) (items (doc (addSection env pw t c st)))"
proof -
  have "prefix (items (doc st)) (items (doc (heading_drawn t st)))"
    by (simp add: heading_drawn_fields)
  also have "prefix \<dots> (items (doc (fold emit_line (wrapped_lines env pw c) (heading_drawn t st))))"
    by (rule fold_emit_line_prefix)
  finally show ?thesis by (simp add: addSection_unfold)
qed

lemma outline_addSection:
  "outline (doc (addSection env pw t c st)) = outline (doc st) @ section_outline env pw t c"
  by (simp add: addSection_unfold outline_fold_emit_line heading_drawn_fields
      section_outline_def)
     (simp add: outline_def heading_drawn_fields)

lemma headings_of_section:
  "filter (\<lambda>p. fst p = 14) (section_outline env pw t c) = [(14, t)]"
  by (simp add: section_outline_def filter_map o_def)

lemma add_all_sections_fold:
  "add_all_sections env pw a st = add_sections env pw (report_sections a) st"
  by (simp add: add_all_sections_def add_sections_def report_sections_def Let_def)

lemma add_sections_fields:
  "pageHeight (doc (add_sections env pw secs st)) = pageHeight (doc st) \<and>
   pageWidth (doc (add_sections env pw secs st)) = pageWidth (doc st)"
  by (induction secs arbitrary: st) (simp_all add: add_sections_def addSection_fields)

lemma add_sections_pages: "numPages (doc st) \<le> numPages (doc (add_sections env pw secs st))"
proof (induction secs arbitrary: st)
  case Nil
  show ?case by (simp add: add_sections_def)
next
  case (Cons sec secs)
  let ?st1 = "addSection env pw (fst sec) (snd sec) st"
  have "numPages (doc st) \<le> numPages (doc ?st1)" by (rule addSection_pages)
  also have "\<dots> \<le> numPages (doc (add_sections env pw secs ?st1))" by (rule Cons.IH)
  finally show ?case by (simp add: add_sections_def)
qed

lemma add_sections_prefix: "prefix (items (doc st)) (items (doc (add_sections env pw secs st)))"
proof (induction secs arbitrary: st)
  case Nil
  show ?case by (simp add: add_sections_def)
next
  case (Cons sec secs)
  have step: "add_sections env pw (sec # secs) st =
        add_sections env pw secs (addSection env pw (fst sec) (snd sec) st)"
    by (simp add: add_sections_def)
  have "prefix (items (doc st)) (items (doc (addSection env pw (fst sec) (snd sec) st)))"
    by (rule addSection_prefix)
  also have "prefix \<dots> (items (doc (add_sections env pw secs
      (addSection env pw (fst sec) (snd sec) st))))"
    by (rule Cons.IH)
  finally show ?case unfolding step .
qed

lemma outline_add_sections:
  "outline (doc (add_sections env pw secs st)) =
     outline (doc st) @ concat (map (\<lambda>sec. section_outline env pw (fst sec) (snd sec)) secs)"
proof (induction secs arbitrary: st)
  case Nil
  show ?case by (simp add: add_sections_def)
next
  case (Cons sec secs)
  have "add_sections env pw (sec # secs) st =
        add_sections env pw secs (addSection env pw (fst sec) (snd sec) st)"
    by (simp add: add_sections_def)
  then show ?case by (simp add: Cons.IH outline_addSection)
qed

lemma add_sections_same_page:
  assumes "numPages (doc (add_sections env pw secs st)) = numPages (doc st)"
    and "concat (map (\<lambda>sec. wrapped_lines env pw (snd sec)) secs) \<noteq> []"
  shows "yPos st + lineHeight *
           of_nat (length (concat (map (\<lambda>sec. wrapped_lines env pw (snd sec)) secs)))
         \<le> pageHeight (doc st) - margin"
  using assms
proof (induction secs arbitrary: st)
  case Nil
  then show ?case by simp
next
  case (Cons sec secs)
  define st1 where "st1 = addSection env pw (fst sec) (snd sec) st"
  define n1 where "n1 = length (wrapped_lines env pw (snd sec))"
  define rest where "rest = concat (map (\<lambda>sec. wrapped_lines env pw (snd sec)) secs)"
  define H where "H = pageHeight (doc st) - margin"
  have unfold: "add_sections env pw (sec # secs) st = add_sections env pw secs st1"
    by (simp add: add_sections_def st1_def)
  have a: "numPages (doc st) \<le> numPages (doc st1)"
    unfolding st1_def by (rule addSection_pages)
  have b: "numPages (doc st1) \<le> numPages (doc (add_sections env pw secs st1))"
    by (rule add_sections_pages)
  from Cons.prems(1) unfold
  have c: "numPages (doc (add_sections env pw secs st1)) = numPages (doc st)" by simp
  from a b c have same1: "numPages (doc st1) = numPages (doc st)" by linarith
  with c have same2: "numPages (doc (add_sections env pw secs st1)) = numPages (doc st1)"
    by simp
  from addSection_same_page [OF same1 [unfolded st1_def]]
  have y1: "yPos st1 = yPos st + lineHeight * 2 + lineHeight * of_nat n1"
    and fit1: "n1 \<noteq> 0 \<Longrightarrow> yPos st + lineHeight * of_nat n1 \<le> H"
    by (simp_all add: st1_def n1_def H_def)
  have H1: "pageHeight (doc st1) - margin = H"
    by (simp add: st1_def H_def addSection_fields)
  have fit2: "yPos st1 + lineHeight * of_nat (length rest) \<le> H" if "rest \<noteq> []"
    using Cons.IH [OF same2] that unfolding rest_def H1 by simp
  have len: "length (concat (map (\<lambda>sec. wrapped_lines env pw (snd sec)) (sec # secs))) =
             n1 + length rest" by (simp add: n1_def rest_def)
  from Cons.prems(2) have ne: "n1 + length rest \<noteq> 0"
    unfolding len [symmetric] by simp
  have "yPos st + lineHeight * of_nat (n1 + length rest) \<le> H"
  proof (cases "rest = []")
    case True
    with ne have "n1 \<noteq> 0" by simp
    from fit1 [OF this] True show ?thesis by simp
  next
    case False
    have "0 \<le> lineHeight * 2" by (simp add: lineHeight_def)
    with fit2 [OF False] y1 show ?thesis by (simp add: algebra_simps)
  qed
  then show ?case unfolding len H_def .
qed

lemma section_titles:
  "map fst (report_sections a) =
     [''Readability Analysis'', ''Keyword Analysis'', ''Experience Analysis'',
      ''Education Analysis'', ''Impact Verbs Used'', ''Industry-Specific Keywords'',
      ''Critical Improvements Needed'', ''Recommended Improvements'',
      ''Optional Enhancements'', ''Hard Skills'', ''Soft Skills'']"
  by (simp add: report_sections_def)

lemma report_sections_empty:
  assumes "all_lists_empty a"
  shows "report_sections a =
     [(''Readability Analysis'', []),
      (''Keyword Analysis'', [''Found Keywords: '', ''Missing Important Keywords: '']),
      (''Experience Analysis'', []), (''Education Analysis'', []),
      (''Impact Verbs Used'', []), (''Industry-Specific Keywords'', []),
      (''Critical Improvements Needed'', []), (''Recommended Improvements'', []),
      (''Optional Enhancements'', []), (''Hard Skills'', []), (''Soft Skills'', [])]"
  using assms by (simp add: report_sections_def all_lists_empty_def)

section \<open>The whole document\<close>

lemma title_and_summary_layout:
  "yPos (title_and_summary env a) = 90"
  "numPages (doc (title_and_summary env a)) = 1"
  "pageHeight (doc (title_and_summary env a)) = page_height env"
  "pageWidth (doc (title_and_summary env a)) = page_width env"
  by (simp_all add: title_and_summary_def Let_def new_jsPDF_def setFontSize_def
      setTextColor_def doc_text_def lineHeight_def)

lemma title_and_summary_items:
  "items (doc (title_and_summary env a)) =
     [\<lparr>it_page = 1, it_text = ''Resume Analysis Report'', it_x = 20, it_y = 20,
        it_fontSize = 24, it_color = (0, 128, 128), it_align = AlignLeft\<rparr>,
      \<lparr>it_page = 1, it_text = ''File Name: '' @ fileName a, it_x = 20, it_y = 40,
        it_fontSize = 12, it_color = (0, 0, 0), it_align = AlignLeft\<rparr>,
      \<lparr>it_page = 1, it_text = ''Analysis Date: '' @ toLocaleDateString env, it_x = 20,
        it_y = 50, it_fontSize = 12, it_color = (0, 0, 0), it_align = AlignLeft\<rparr>,
      \<lparr>it_page = 1, it_text = ''Overall ATS Score: '' @ show_int (score a) @ ''/100'',
        it_x = 20, it_y = 70, it_fontSize = 16, it_color = (0, 0, 0), it_align = AlignLeft\<rparr>]"
  by (simp add: title_and_summary_def Let_def new_jsPDF_def setFontSize_def
      setTextColor_def doc_text_def lineHeight_def margin_def)

lemma report_document_unfold:
  "report_document env a = footer (page_width env) (doc (sections_done env a))"
  by (simp add: report_document_def Let_def title_and_summary_layout add_all_sections_fold
      sections_done_def)

lemma sections_done_fields:
  "pageHeight (doc (sections_done env a)) = page_height env"
  "pageWidth (doc (sections_done env a)) = page_width env"
  by (simp_all add: sections_done_def add_sections_fields title_and_summary_layout)

lemma footer_fields:
  "numPages (footer pw d) = numPages d"
  "pageHeight (footer pw d) = pageHeight d"
  "pageWidth (footer pw d) = pageWidth d"
  "items (footer pw d) =
     items d @ [\<lparr>it_page = numPages d, it_text = footerText, it_x = pw / 2,
                 it_y = pageHeight d - 10, it_fontSize = 10, it_color = (128, 128, 128),
                 it_align = AlignCenter\<rparr>]"
  by (simp_all add: footer_def Let_def setFontSize_def setTextColor_def doc_text_def)

lemma report_document_fields:
  "numPages (report_document env a) = numPages (doc (sections_done env a))"
  "pageHeight (report_document env a) = page_height env"
  "pageWidth (report_document env a) = page_width env"
  "items (report_document env a) =
     items (doc (sections_done env a)) @ [footer_item (report_document env a)]"
  by (simp_all add: report_document_unfold footer_fields sections_done_fields footer_item_def)

lemma report_document_pages: "1 \<le> numPages (report_document env a)"
  using add_sections_pages [of "title_and_summary env a" env "page_width env" "report_sections a"]
  by (simp add: report_document_fields sections_done_def title_and_summary_layout)

lemma report_document_first_four:
  "take 4 (items (report_document env a)) = items (doc (title_and_summary env a))"
proof -
  have "prefix (items (doc (title_and_summary env a))) (items (doc (sections_done env a)))"
    unfolding sections_done_def by (rule add_sections_prefix)
  then obtain zs where "items (doc (sections_done env a)) =
      items (doc (title_and_summary env a)) @ zs"
    by (auto simp: prefix_def)
  then show ?thesis by (simp add: report_document_fields title_and_summary_items)
qed

lemma outline_report_document:
  "outline (report_document env a) =
     [(24, ''Resume Analysis Report''), (12, ''File Name: '' @ fileName a),
      (12, ''Analysis Date: '' @ toLocaleDateString env),
      (16, ''Overall ATS Score: '' @ show_int (score a) @ ''/100'')] @
     concat (map (\<lambda>sec. section_outline env (page_width env) (fst sec) (snd sec))
       (report_sections a)) @
     [(10, footerText)]"
proof -
  have "outline (report_document env a) =
      outline (doc (sections_done env a)) @ [(10, footerText)]"
    by (simp add: outline_def report_document_fields footer_item_def)
  also have "outline (doc (sections_done env a)) =
      outline (doc (title_and_summary env a)) @
      concat (map (\<lambda>sec. section_outline env (page_width env) (fst sec) (snd sec))
       (report_sections a))"
    by (simp add: sections_done_def outline_add_sections)
  also have "outline (doc (title_and_summary env a)) =
     [(24, ''Resume Analysis Report''), (12, ''File Name: '' @ fileName a),
      (12, ''Analysis Date: '' @ toLocaleDateString env),
      (16, ''Overall ATS Score: '' @ show_int (score a) @ ''/100'')]"
    by (simp add: outline_def title_and_summary_items)
  finally show ?thesis by simp
qed

lemma show_int_85: "show_int 85 = ''85''"
  by (simp add: show_int_def nat_digits.simps)

lemma one_page_bound:
  assumes one: "numPages (report_document env a) = 1"
    and lines: "wrapped_line_count env a \<noteq> 0"
  shows "90 + lineHeight * of_nat (wrapped_line_count env a) \<le> page_height env - margin"
proof -
  let ?st0 = "title_and_summary env a"
  from one have "numPages (doc (add_sections env (page_width env) (report_sections a) ?st0)) =
      numPages (doc ?st0)"
    by (simp add: report_document_fields sections_done_def title_and_summary_layout)
  moreover from lines
  have "concat (map (\<lambda>sec. wrapped_lines env (page_width env) (snd sec)) (report_sections a)) \<noteq> []"
    unfolding wrapped_line_count_def by (simp only: length_0_conv not_False_eq_True)
  ultimately show ?thesis
    using add_sections_same_page [of env "page_width env" "report_sections a" ?st0]
    by (simp add: title_and_summary_layout wrapped_line_count_def)
qed

lemma more_lines_than_capacity:
  assumes tall: "margin + margin \<le> page_height env"
    and over: "capacity env < int (wrapped_line_count env a)"
  shows "1 < numPages (report_document env a)"
proof (rule ccontr)
  assume "\<not> 1 < numPages (report_document env a)"
  with report_document_pages [of env a] have one: "numPages (report_document env a) = 1"
    by linarith
  define n where "n = wrapped_line_count env a"
  define H where "H = page_height env"
  from tall have "0 \<le> (H - margin - margin) / lineHeight"
    by (simp add: H_def lineHeight_def)
  then have "0 \<le> capacity env" by (simp add: capacity_def H_def)
  with over have "n \<noteq> 0" by (simp add: n_def)
  from one_page_bound [OF one this [unfolded n_def]]
  have "90 + 10 * of_nat n \<le> H - 20" by (simp add: n_def H_def lineHeight_def margin_def)
  then have "of_int (int n) \<le> (H - margin - margin) / lineHeight"
    by (simp add: lineHeight_def margin_def)
  then have "int n \<le> capacity env" unfolding capacity_def H_def by (simp only: le_floor_iff)
  with over show False by (simp add: n_def)
qed

section \<open>Invariants of the drawn items\<close>

lemma emit_line_content_fits:
  assumes "margin \<le> pageHeight (doc st) - margin" and "content_fits (doc st)"
  shows "content_fits (doc (emit_line l st))"
  using assms by (auto simp: content_fits_def emit_line_items emit_line_fields)

lemma fold_emit_line_content_fits:
  assumes "margin \<le> pageHeight (doc st) - margin" and "content_fits (doc st)"
  shows "content_fits (doc (fold emit_line ls st))"
  using assms
  by (induction ls arbitrary: st) (simp_all add: emit_line_content_fits emit_line_fields)

lemma heading_drawn_content_fits:
  assumes "content_fits (doc st)"
  shows "content_fits (doc (heading_drawn t st))"
  using assms by (auto simp: content_fits_def heading_drawn_fields is_content_def)

lemma addSection_content_fits:
  assumes "margin \<le> pageHeight (doc st) - margin" and "content_fits (doc st)"
  shows "content_fits (doc (addSection env pw t c st))"
proof -
  have "content_fits (doc (fold emit_line (wrapped_lines env pw c) (heading_drawn t st)))"
    using assms
    by (intro fold_emit_line_content_fits heading_drawn_content_fits)
       (simp_all add: heading_drawn_fields)
  then show ?thesis by (simp add: addSection_unfold)
qed

lemma add_sections_content_fits:
  assumes "margin \<le> pageHeight (doc st) - margin" and "content_fits (doc st)"
  shows "content_fits (doc (add_sections env pw secs st))"
  using assms
proof (induction secs arbitrary: st)
  case Nil
  then show ?case by (simp add: add_sections_def)
next
  case (Cons sec secs)
  have "add_sections env pw (sec # secs) st =
        add_sections env pw secs (addSection env pw (fst sec) (snd sec) st)"
    by (simp add: add_sections_def)
  with Cons show ?case by (simp add: addSection_content_fits addSection_fields)
qed

lemma report_document_content_fits:
  assumes "margin + margin \<le> page_height env"
  shows "content_fits (report_document env a)"
proof -
  have "content_fits (doc (title_and_summary env a))"
    by (simp add: content_fits_def title_and_summary_items is_content_def margin_def)
  with assms have "content_fits (doc (sections_done env a))"
    unfolding sections_done_def
    by (intro add_sections_content_fits) (simp_all add: title_and_summary_layout)
  then show ?thesis
    by (auto simp: content_fits_def report_document_fields sections_done_fields
        footer_item_def is_content_def)
qed

lemma emit_line_content_count:
  assumes "fontSize (doc st) = 12"
  shows "length (filter is_content (items (doc (emit_line l st)))) =
         length (filter is_content (items (doc st))) + 1"
  using assms by (simp add: emit_line_items is_content_def)

lemma fold_emit_line_content_count:
  assumes "fontSize (doc st) = 12"
  shows "length (filter is_content (items (doc (fold emit_line ls st)))) =
         length (filter is_content (items (doc st))) + length ls"
  using assms
  by (induction ls arbitrary: st) (simp_all add: emit_line_content_count emit_line_fields)

lemma addSection_content_count:
  "length (filter is_content (items (doc (addSection env pw t c st)))) =
   length (filter is_content (items (doc st))) + length (wrapped_lines env pw c)"
  by (simp add: addSection_unfold fold_emit_line_content_count heading_drawn_fields
      is_content_def margin_def)

lemma add_sections_content_count:
  "length (filter is_content (items (doc (add_sections env pw secs st)))) =
   length (filter is_content (items (doc st))) +
   length (concat (map (\<lambda>sec. wrapped_lines env pw (snd sec)) secs))"
proof (induction secs arbitrary: st)
  case Nil
  show ?case by (simp add: add_sections_def)
next
  case (Cons sec secs)
  have step: "add_sections env pw (sec # secs) st =
        add_sections env pw secs (addSection env pw (fst sec) (snd sec) st)"
    by (simp add: add_sections_def)
  show ?case unfolding step by (simp add: Cons.IH addSection_content_count)
qed

lemma report_document_content_count:
  "length (filter is_content (items (report_document env a))) = wrapped_line_count env a"
  by (simp add: report_document_fields sections_done_def add_sections_content_count
      title_and_summary_items wrapped_line_count_def footer_item_def is_content_def margin_def)

lemma fold_emit_line_items_inv:
  assumes "\<forall>i \<in> set (items (doc st)). Q i"
    and "\<And>pg l y. Q \<lparr>it_page = pg, it_text = bulleted l, it_x = margin + 5, it_y = y,
            it_fontSize = fontSize (doc st), it_color = textColor (doc st),
            it_align = AlignLeft\<rparr>"
  shows "\<forall>i \<in> set (items (doc (fold emit_line ls st))). Q i"
  using assms
proof (induction ls arbitrary: st)
  case Nil
  then show ?case by simp
next
  case (Cons l ls)
  have "\<forall>i \<in> set (items (doc (emit_line l st))). Q i"
    using Cons.prems by (simp add: emit_line_items)
  moreover have "\<And>pg l' y. Q \<lparr>it_page = pg, it_text = bulleted l', it_x = margin + 5, it_y = y,
            it_fontSize = fontSize (doc (emit_line l st)),
            it_color = textColor (doc (emit_line l st)), it_align = AlignLeft\<rparr>"
    using Cons.prems(2) by (simp add: emit_line_fields)
  ultimately show ?case using Cons.IH [of "emit_line l st"] by simp
qed

lemma addSection_items_inv:
  assumes "\<forall>i \<in> set (items (doc st)). Q i"
    and bullets: "\<And>pg l y. Q \<lparr>it_page = pg, it_text = bulleted l, it_x = margin + 5, it_y = y,
            it_fontSize = 12, it_color = (0, 0, 0), it_align = AlignLeft\<rparr>"
    and heading: "\<And>pg y. Q \<lparr>it_page = pg, it_text = t, it_x = margin, it_y = y,
            it_fontSize = 14, it_color = (0, 128, 128), it_align = AlignLeft\<rparr>"
  shows "\<forall>i \<in> set (items (doc (addSection env pw t c st))). Q i"
proof -
  have "\<forall>i \<in> set (items (doc (heading_drawn t st))). Q i"
    using assms(1) heading by (simp add: heading_drawn_fields)
  then have "\<forall>i \<in> set (items (doc (fold emit_line (wrapped_lines env pw c)
      (heading_drawn t st)))). Q i"
    by (rule fold_emit_line_items_inv) (simp add: heading_drawn_fields bullets)
  then show ?thesis by (simp add: addSection_unfold)
qed

lemma add_sections_items_inv:
  assumes "\<forall>i \<in> set (items (doc st)). Q i"
    and bullets: "\<And>pg l y. Q \<lparr>it_page = pg, it_text = bulleted l, it_x = margin + 5, it_y = y,
            it_fontSize = 12, it_color = (0, 0, 0), it_align = AlignLeft\<rparr>"
    and heading: "\<And>t pg y. t \<in> set (map fst secs) \<Longrightarrow>
            Q \<lparr>it_page = pg, it_text = t, it_x = margin, it_y = y,
            it_fontSize = 14, it_color = (0, 128, 128), it_align = AlignLeft\<rparr>"
  shows "\<forall>i \<in> set (items (doc (add_sections env pw secs st))). Q i"
  using assms(1) heading
proof (induction secs arbitrary: st)
  case Nil
  then show ?case by (simp add: add_sections_def)
next
  case (Cons sec secs)
  have step: "add_sections env pw (sec # secs) st =
        add_sections env pw secs (addSection env pw (fst sec) (snd sec) st)"
    by (simp add: add_sections_def)
  have "\<forall>i \<in> set (items (doc (addSection env pw (fst sec) (snd sec) st))). Q i"
    by (rule addSection_items_inv [OF Cons.prems(1) bullets]) (simp add: Cons.prems(2))
  then show ?case unfolding step
    by (rule Cons.IH) (simp add: Cons.prems(2))
qed

lemma sections_done_no_footer:
  "filter footer_like (items (doc (sections_done env a))) = []"
proof -
  have "\<forall>i \<in> set (items (doc (sections_done env a))). \<not> footer_like i"
    unfolding sections_done_def
  proof (rule add_sections_items_inv)
    show "\<forall>i \<in> set (items (doc (title_and_summary env a))). \<not> footer_like i"
      by (simp add: title_and_summary_items footer_like_def footerText_def)
  next
    fix pg l y
    show "\<not> footer_like \<lparr>it_page = pg, it_text = bulleted l, it_x = margin + 5, it_y = y,
            it_fontSize = 12, it_color = (0, 0, 0), it_align = AlignLeft\<rparr>"
      by (simp add: footer_like_def footerText_def bulleted_def bullet_def)
  next
    fix t pg y
    assume "t \<in> set (map fst (report_sections a))"
    then show "\<not> footer_like \<lparr>it_page = pg, it_text = t, it_x = margin, it_y = y,
            it_fontSize = 14, it_color = (0, 128, 128), it_align = AlignLeft\<rparr>"
      unfolding section_titles by (auto simp: footer_like_def footerText_def)
  qed
  then show ?thesis by (simp add: filter_empty_conv)
qed

section \<open>Lines drawn earlier do not influence later drawing\<close>

lemma emit_line_prepend: "emit_line l (prepend xs st) = prepend xs (emit_line l st)"
  by (simp add: emit_line_def prepend_def Let_def doc_text_def addPage_def)

lemma fold_emit_line_prepend:
  "fold emit_line ls (prepend xs st) = prepend xs (fold emit_line ls st)"
  by (induction ls arbitrary: st) (simp_all add: emit_line_prepend)

lemma heading_drawn_prepend: "heading_drawn t (prepend xs st) = prepend xs (heading_drawn t st)"
  by (simp add: heading_drawn_def prepend_def doc_text_def setFontSize_def setTextColor_def)

lemma trailing_space_prepend: "trailing_space (prepend xs st) = prepend xs (trailing_space st)"
  by (simp add: trailing_space_def prepend_def)

lemma addSection_prepend:
  "addSection env pw t c (prepend xs st) = prepend xs (addSection env pw t c st)"
  by (simp add: addSection_record heading_drawn_prepend fold_emit_line_prepend
      trailing_space_prepend)

lemma add_sections_prepend:
  "add_sections env pw secs (prepend xs st) = prepend xs (add_sections env pw secs st)"
proof (induction secs arbitrary: st)
  case Nil
  show ?case by (simp add: add_sections_def)
next
  case (Cons sec secs)
  have step: "add_sections env pw (sec # secs) s =
        add_sections env pw secs (addSection env pw (fst sec) (snd sec) s)" for s
    by (simp add: add_sections_def)
  show ?case by (simp add: step addSection_prepend Cons.IH)
qed

lemma footer_prepend:
  "footer pw (doc (prepend xs st)) = (footer pw (doc st))\<lparr>items := xs @ items (footer pw (doc st))\<rparr>"
  by (simp add: footer_def prepend_def Let_def doc_text_def setFontSize_def setTextColor_def)

lemma emit_item_date: "emit_item (env\<lparr>toLocaleDateString := x\<rparr>) pw = emit_item env pw"
  by (rule ext)+ (simp add: emit_item_def)

lemma addSection_date:
  "addSection (env\<lparr>toLocaleDateString := x\<rparr>) pw t c = addSection env pw t c"
  by (rule ext) (simp add: addSection_def emit_item_date)

lemma add_sections_date:
  "add_sections (env\<lparr>toLocaleDateString := x\<rparr>) pw secs st = add_sections env pw secs st"
  by (simp add: add_sections_def addSection_date)

lemma title_and_summary_prepend:
  "title_and_summary env a =
     prepend
       [\<lparr>it_page = 1, it_text = ''Resume Analysis Report'', it_x = 20, it_y = 20,
          it_fontSize = 24, it_color = (0, 128, 128), it_align = AlignLeft\<rparr>,
        \<lparr>it_page = 1, it_text = ''File Name: '' @ fileName a, it_x = 20, it_y = 40,
          it_fontSize = 12, it_color = (0, 0, 0), it_align = AlignLeft\<rparr>,
        \<lparr>it_page = 1, it_text = ''Analysis Date: '' @ toLocaleDateString env, it_x = 20,
          it_y = 50, it_fontSize = 12, it_color = (0, 0, 0), it_align = AlignLeft\<rparr>]
       (score_drawn env a)"
  by (simp add: title_and_summary_def Let_def new_jsPDF_def setFontSize_def
      setTextColor_def doc_text_def lineHeight_def margin_def prepend_def score_drawn_def)

lemma score_drawn_date: "score_drawn (env\<lparr>toLocaleDateString := x\<rparr>) a = score_drawn env a"
  by (simp add: score_drawn_def)

lemma report_document_prepend:
  "report_document env a =
     (after_summary env a)\<lparr>items :=
       [\<lparr>it_page = 1, it_text = ''Resume Analysis Report'', it_x = 20, it_y = 20,
          it_fontSize = 24, it_color = (0, 128, 128), it_align = AlignLeft\<rparr>,
        \<lparr>it_page = 1, it_text = ''File Name: '' @ fileName a, it_x = 20, it_y = 40,
          it_fontSize = 12, it_color = (0, 0, 0), it_align = AlignLeft\<rparr>,
        \<lparr>it_page = 1, it_text = ''Analysis Date: '' @ toLocaleDateString env, it_x = 20,
          it_y = 50, it_fontSize = 12, it_color = (0, 0, 0), it_align = AlignLeft\<rparr>]
       @ items (after_summary env a)\<rparr>"
  unfolding report_document_unfold sections_done_def after_summary_def
  by (subst title_and_summary_prepend) (simp only: add_sections_prepend footer_prepend)

lemma after_summary_date:
  "after_summary (env\<lparr>toLocaleDateString := x\<rparr>) a = after_summary env a"
  by (simp add: after_summary_def add_sections_date score_drawn_date)

lemma exclude_timestamp_report:
  "exclude_timestamp (report_document env a) =
     (after_summary env a)\<lparr>items :=
       [\<lparr>it_page = 1, it_text = ''Resume Analysis Report'', it_x = 20, it_y = 20,
          it_fontSize = 24, it_color = (0, 128, 128), it_align = AlignLeft\<rparr>,
        \<lparr>it_page = 1, it_text = ''File Name: '' @ fileName a, it_x = 20, it_y = 40,
          it_fontSize = 12, it_color = (0, 0, 0), it_align = AlignLeft\<rparr>]
       @ filter (\<lambda>i. \<not> is_timestamp i) (items (after_summary env a))\<rparr>"
  by (simp add: report_document_prepend exclude_timestamp_def is_timestamp_def)

lemma after_summary_no_timestamp:
  "filter (\<lambda>i. \<not> is_timestamp i) (items (after_summary env a)) = items (after_summary env a)"
proof -
  have "\<forall>i \<in> set (items (doc (add_sections env (page_width env) (report_sections a)
      (score_drawn env a)))). \<not> is_timestamp i"
  proof (rule add_sections_items_inv)
    show "\<forall>i \<in> set (items (doc (score_drawn env a))). \<not> is_timestamp i"
      by (simp add: score_drawn_def is_timestamp_def)
  next
    fix pg l y
    show "\<not> is_timestamp \<lparr>it_page = pg, it_text = bulleted l, it_x = margin + 5, it_y = y,
            it_fontSize = 12, it_color = (0, 0, 0), it_align = AlignLeft\<rparr>"
      by (simp add: is_timestamp_def bulleted_def bullet_def)
  next
    fix t pg y
    assume "t \<in> set (map fst (report_sections a))"
    then show "\<not> is_timestamp \<lparr>it_page = pg, it_text = t, it_x = margin, it_y = y,
            it_fontSize = 14, it_color = (0, 128, 128), it_align = AlignLeft\<rparr>"
      unfolding section_titles by (auto simp: is_timestamp_def)
  qed
  then have "\<forall>i \<in> set (items (after_summary env a)). \<not> is_timestamp i"
    by (simp add: after_summary_def footer_fields is_timestamp_def footerText_def)
  then show ?thesis by (simp add: filter_id_conv)
qed

section \<open>Two documents computed in full\<close>

text \<open>
  Rewriting a call on an explicit layout, innermost call first, computes a document
  line by line. On A4 with one line per item, the report with empty lists stays on one
  page and the built-in report takes three.
\<close>

lemma title_and_summary_record:
  "title_and_summary env a =
     \<lparr>doc = \<lparr>pageWidth = page_width env, pageHeight = page_height env, numPages = 1,
             fontSize = 16, textColor = (0, 0, 0),
             items =
     [\<lparr>it_page = 1, it_text = ''Resume Analysis Report'', it_x = 20, it_y = 20,
        it_fontSize = 24, it_color = (0, 128, 128), it_align = AlignLeft\<rparr>,
      \<lparr>it_page = 1, it_text = ''File Name: '' @ fileName a, it_x = 20, it_y = 40,
        it_fontSize = 12, it_color = (0, 0, 0), it_align = AlignLeft\<rparr>,
      \<lparr>it_page = 1, it_text = ''Analysis Date: '' @ toLocaleDateString env, it_x = 20,
        it_y = 50, it_fontSize = 12, it_color = (0, 0, 0), it_align = AlignLeft\<rparr>,
      \<lparr>it_page = 1, it_text = ''Overall ATS Score: '' @ show_int (score a) @ ''/100'',
        it_x = 20, it_y = 70, it_fontSize = 16, it_color = (0, 0, 0), it_align = AlignLeft\<rparr>]\<rparr>,
      yPos = 90\<rparr>"
  by (simp add: title_and_summary_def Let_def new_jsPDF_def setFontSize_def
      setTextColor_def doc_text_def lineHeight_def margin_def)

lemma emit_line_record:
  "emit_line l \<lparr>doc = d, yPos = y\<rparr> =
     (if y > pageHeight d - margin
      then \<lparr>doc = doc_text (bulleted l) (margin + 5) margin AlignLeft (addPage d),
            yPos = margin + lineHeight\<rparr>
      else \<lparr>doc = doc_text (bulleted l) (margin + 5) y AlignLeft d, yPos = y + lineHeight\<rparr>)"
  by (simp add: emit_line_def Let_def bulleted_def)

lemma heading_drawn_record:
  "heading_drawn t \<lparr>doc = d, yPos = y\<rparr> =
     \<lparr>doc = setTextColor (0, 0, 0) (setFontSize 12
              (doc_text t margin y AlignLeft
                 (setTextColor (0, 128, 128) (setFontSize 14 d)))),
      yPos = y + lineHeight\<rparr>"
  by (simp add: heading_drawn_def)

lemmas eval_rules = report_document_unfold sections_done_def add_sections_def
  report_sections_def addSection_record heading_drawn_record emit_line_record
  title_and_summary_record wrapped_lines_def printable_width_def
  footer_def Let_def trailing_space_def doc_text_def addPage_def setFontSize_def setTextColor_def
  a4_def no_wrap_def lineHeight_def margin_def

lemma empty_report_on_a4:
  "map (\<lambda>i. (it_page i, it_fontSize i, it_x i, it_y i, it_text i))
     (items (report_document a4 empty_report)) =
   [(1, 24, 20, 20, ''Resume Analysis Report''),
    (1, 12, 20, 40, ''File Name: cv.pdf''),
    (1, 12, 20, 50, ''Analysis Date: 11/2/2026''),
    (1, 16, 20, 70, ''Overall ATS Score: 0/100''),
    (1, 14, 20, 90, ''Readability Analysis''),
    (1, 14, 20, 110, ''Keyword Analysis''),
    (1, 12, 25, 120, bulleted ''Found Keywords: ''),
    (1, 12, 25, 130, bulleted ''Missing Important Keywords: ''),
    (1, 14, 20, 150, ''Experience Analysis''),
    (1, 14, 20, 170, ''Education Analysis''),
    (1, 14, 20, 190, ''Impact Verbs Used''),
    (1, 14, 20, 210, ''Industry-Specific Keywords''),
    (1, 14, 20, 230, ''Critical Improvements Needed''),
    (1, 14, 20, 250, ''Recommended Improvements''),
    (1, 14, 20, 270, ''Optional Enhancements''),
    (1, 14, 20, 290, ''Hard Skills''),
    (1, 14, 20, 310, ''Soft Skills''),
    (1, 10, 945007 / 9000, 3444001 / 12000, footerText)]"
  by (simp add: eval_rules empty_report_def show_int_def nat_digits.simps)

lemma builtin_report_on_a4:
  "map (\<lambda>i. (it_page i, it_fontSize i, it_x i, it_y i))
     (items (report_document a4 (simulated_result ''cv.pdf'' []))) =
   [(1, 24, 20, 20), (1, 12, 20, 40), (1, 12, 20, 50), (1, 16, 20, 70),
    (1, 14, 20, 90), (1, 12, 25, 100), (1, 12, 25, 110), (1, 12, 25, 120), (1, 12, 25, 130),
    (1, 14, 20, 150), (1, 12, 25, 160), (1, 12, 25, 170),
    (1, 14, 20, 190), (1, 12, 25, 200), (1, 12, 25, 210), (1, 12, 25, 220), (1, 12, 25, 230),
    (1, 14, 20, 250), (1, 12, 25, 260), (1, 12, 25, 270), (2, 12, 25, 20), (2, 12, 25, 30),
    (2, 14, 20, 50), (2, 12, 25, 60), (2, 12, 25, 70), (2, 12, 25, 80), (2, 12, 25, 90), (2, 12, 25, 100), (2, 12, 25, 110),
    (2, 14, 20, 130), (2, 12, 25, 140), (2, 12, 25, 150), (2, 12, 25, 160), (2, 12, 25, 170),
    (2, 14, 20, 190), (2, 12, 25, 200), (2, 12, 25, 210), (2, 12, 25, 220),
    (2, 14, 20, 240), (2, 12, 25, 250), (2, 12, 25, 260), (2, 12, 25, 270),
    (2, 14, 20, 290), (3, 12, 25, 20), (3, 12, 25, 30), (3, 12, 25, 40),
    (3, 14, 20, 60), (3, 12, 25, 70), (3, 12, 25, 80), (3, 12, 25, 90), (3, 12, 25, 100), (3, 12, 25, 110),
      (3, 12, 25, 120), (3, 12, 25, 130),
    (3, 14, 20, 150), (3, 12, 25, 160), (3, 12, 25, 170), (3, 12, 25, 180), (3, 12, 25, 190), (3, 12, 25, 200),
      (3, 12, 25, 210), (3, 12, 25, 220),
    (3, 10, 945007 / 9000, 3444001 / 12000)] \<and>
   numPages (report_document a4 (simulated_result ''cv.pdf'' [])) = 3"
  by (simp add: eval_rules simulated_result_def)

lemma cap_a4: "capacity a4 = 25"
  by (simp add: capacity_def a4_def margin_def lineHeight_def floor_eq_iff)

lemma count_builtin: "wrapped_line_count a4 (simulated_result ''cv.pdf'' []) = 47"
  by (simp add: wrapped_line_count_def wrapped_lines_def report_sections_def a4_def no_wrap_def
      simulated_result_def)



section \<open>The lines drawn for one content string\<close>


















section \<open>Pagination\<close>

text \<open>
  C1, as amended. On a page at least as tall as the two margins together (a default A4
  page is): a report whose combined wrapped-line count exceeds one page's capacity,
  floor((pageHeight - topMargin - bottomMargin) / lineHeight), is rendered on more than
  one page; and before each wrapped content line is drawn the cursor is compared with
  the bottom-margin threshold, a cursor beyond it starting a new page and drawing the
  line at the top margin, so that no bulleted content line lies beyond the threshold on
  any page. The bulleted content lines are as many as the wrapped lines. Section
  headings and the footer are drawn without that check.
\<close>

theorem content_lines_within_bottom_margin:
  assumes tall: "margin + margin \<le> page_height env"
  shows "(capacity env < int (wrapped_line_count env a) \<longrightarrow>
            1 < numPages (report_document env a)) \<and>
         length (filter is_content (items (report_document env a))) =
           wrapped_line_count env a \<and>
         (\<forall>i \<in> set (items (report_document env a)).
            is_content i \<longrightarrow> it_y i \<le> page_height env - margin) \<and>
         (\<forall>l st. items (doc (emit_line l st)) = items (doc st) @ [line_item st l]) \<and>
         (\<forall>l st. pageHeight (doc st) - margin < yPos st \<longrightarrow>
            numPages (doc (emit_line l st)) = numPages (doc st) + 1 \<and>
            it_page (line_item st l) = numPages (doc st) + 1 \<and>
            it_y (line_item st l) = margin \<and>
            yPos (emit_line l st) = margin + lineHeight) \<and>
         (\<forall>l st. \<not> pageHeight (doc st) - margin < yPos st \<longrightarrow>
            numPages (doc (emit_line l st)) = numPages (doc st) \<and>
            it_page (line_item st l) = numPages (doc st) \<and>
            it_y (line_item st l) = yPos st \<and>
            yPos (emit_line l st) = yPos st + lineHeight)"
proof (intro conjI)
  show "capacity env < int (wrapped_line_count env a) \<longrightarrow> 1 < numPages (report_document env a)"
    using more_lines_than_capacity [OF tall] by blast
  show "length (filter is_content (items (report_document env a))) = wrapped_line_count env a"
    by (rule report_document_content_count)
  show "\<forall>i \<in> set (items (report_document env a)).
          is_content i \<longrightarrow> it_y i \<le> page_height env - margin"
    using report_document_content_fits [OF tall, of a]
    by (simp add: content_fits_def report_document_fields)
  show "\<forall>l st. items (doc (emit_line l st)) = items (doc st) @ [line_item st l]"
    by (simp add: emit_line_line_item)
  show "\<forall>l st. pageHeight (doc st) - margin < yPos st \<longrightarrow>
            numPages (doc (emit_line l st)) = numPages (doc st) + 1 \<and>
            it_page (line_item st l) = numPages (doc st) + 1 \<and>
            it_y (line_item st l) = margin \<and>
            yPos (emit_line l st) = margin + lineHeight"
    by (simp add: emit_line_break)
  show "\<forall>l st. \<not> pageHeight (doc st) - margin < yPos st \<longrightarrow>
            numPages (doc (emit_line l st)) = numPages (doc st) \<and>
            it_page (line_item st l) = numPages (doc st) \<and>
            it_y (line_item st l) = yPos st \<and>
            yPos (emit_line l st) = yPos st + lineHeight"
    by (simp add: emit_line_stay)
qed

theorem content_lines_within_bottom_margin_witness:
  "margin + margin \<le> page_height a4 \<and>
   capacity a4 < int (wrapped_line_count a4 (simulated_result ''cv.pdf'' [])) \<and>
   1 < numPages (report_document a4 (simulated_result ''cv.pdf'' [])) \<and>
   length (filter is_content (items (report_document a4 (simulated_result ''cv.pdf'' [])))) = 47 \<and>
   list_all (\<lambda>i. it_y i \<le> page_height a4 - margin)
     (filter is_content (items (report_document a4 (simulated_result ''cv.pdf'' [])))) \<and>
   pageHeight (doc past_threshold) - margin < yPos past_threshold \<and>
   numPages (doc past_threshold) = 1 \<and>
   numPages (doc (emit_line ''Led'' past_threshold)) = 2 \<and>
   it_y (line_item past_threshold ''Led'') = 20 \<and>
   yPos (emit_line ''Led'' past_threshold) = 30 \<and>
   \<not> pageHeight (doc near_bottom) - margin < yPos near_bottom \<and>
   numPages (doc (emit_line ''Led'' near_bottom)) = 1 \<and>
   it_y (line_item near_bottom ''Led'') = 270 \<and>
   yPos (emit_line ''Led'' near_bottom) = 280"
proof -
  have tall: "margin + margin \<le> page_height a4" by (simp add: a4_def margin_def)
  have over: "capacity a4 < int (wrapped_line_count a4 (simulated_result ''cv.pdf'' []))"
    by (simp add: cap_a4 count_builtin)
  note all = content_lines_within_bottom_margin [OF tall, of "simulated_result ''cv.pdf'' []"]
  have past: "pageHeight (doc past_threshold) - margin < yPos past_threshold"
    "numPages (doc past_threshold) = 1" "yPos past_threshold = 280"
    by (simp_all add: past_threshold_def new_jsPDF_def setFontSize_def a4_def margin_def)
  have near: "\<not> pageHeight (doc near_bottom) - margin < yPos near_bottom"
    "numPages (doc near_bottom) = 1" "yPos near_bottom = 270"
    by (simp_all add: near_bottom_def new_jsPDF_def setFontSize_def a4_mono_def a4_def
        margin_def)
  from all past(1) have "numPages (doc (emit_line ''Led'' past_threshold)) =
        numPages (doc past_threshold) + 1 \<and>
      it_y (line_item past_threshold ''Led'') = margin \<and>
      yPos (emit_line ''Led'' past_threshold) = margin + lineHeight"
    by blast
  with past have broke: "numPages (doc (emit_line ''Led'' past_threshold)) = 2"
    "it_y (line_item past_threshold ''Led'') = 20"
    "yPos (emit_line ''Led'' past_threshold) = 30"
    by (simp_all add: margin_def lineHeight_def)
  from all near(1) have "numPages (doc (emit_line ''Led'' near_bottom)) =
        numPages (doc near_bottom) \<and>
      it_y (line_item near_bottom ''Led'') = yPos near_bottom \<and>
      yPos (emit_line ''Led'' near_bottom) = yPos near_bottom + lineHeight"
    by blast
  with near have stayed: "numPages (doc (emit_line ''Led'' near_bottom)) = 1"
    "it_y (line_item near_bottom ''Led'') = 270"
    "yPos (emit_line ''Led'' near_bottom) = 280"
    by (simp_all add: lineHeight_def)
  from all tall over have "1 < numPages (report_document a4 (simulated_result ''cv.pdf'' []))"
    "length (filter is_content (items (report_document a4 (simulated_result ''cv.pdf'' [])))) = 47"
    "list_all (\<lambda>i. it_y i \<le> page_height a4 - margin)
       (filter is_content (items (report_document a4 (simulated_result ''cv.pdf'' []))))"
    by (simp_all add: list_all_iff count_builtin)
  with tall over past(1,2) near(1) broke stayed show ?thesis by simp
qed

text \<open>
  The claim as stated, for every drawn line, fails. The footer is placed ten units above
  the bottom of the page, below the threshold, on every document. Headings are drawn
  at the cursor without the check: with every list empty the heading of the last
  section is drawn at 310 on the first page, beyond the threshold 277 and beyond the
  page's height 297; in the built-in report with one line per item the heading of the
  ninth section is drawn at 290 on page two.
\<close>

theorem heading_below_bottom_margin:
  "(\<exists>i \<in> set (items (report_document a4 empty_report)).
      it_text i = footerText \<and> it_page i = 1 \<and> it_y i = page_height a4 - 10 \<and>
      page_height a4 - margin < it_y i) \<and>
   (\<exists>i \<in> set (items (report_document a4 empty_report)).
      it_text i = ''Soft Skills'' \<and> it_page i = 1 \<and> it_y i = 310 \<and>
      page_height a4 - margin < it_y i \<and> page_height a4 < it_y i) \<and>
   (\<exists>i \<in> set (items (report_document a4 (simulated_result ''cv.pdf'' []))).
      it_fontSize i = 14 \<and> it_page i = 2 \<and> it_y i = 290 \<and>
      page_height a4 - margin < it_y i)"
proof (intro conjI)
  have h: "page_height a4 - 10 = 3444001 / 12000" "page_height a4 - margin < 3444001 / 12000"
    "page_height a4 - margin < 310" "page_height a4 < 310" "page_height a4 - margin < 290"
    by (simp_all add: a4_def margin_def)
  have "(1, 10, 945007 / 9000, 3444001 / 12000, footerText) \<in>
      set (map (\<lambda>i. (it_page i, it_fontSize i, it_x i, it_y i, it_text i))
        (items (report_document a4 empty_report)))"
    unfolding empty_report_on_a4 by simp
  then obtain i where "i \<in> set (items (report_document a4 empty_report))"
    "it_text i = footerText" "it_page i = 1" "it_y i = 3444001 / 12000"
    by auto
  with h show "\<exists>i \<in> set (items (report_document a4 empty_report)).
      it_text i = footerText \<and> it_page i = 1 \<and> it_y i = page_height a4 - 10 \<and>
      page_height a4 - margin < it_y i"
    by (intro bexI [of _ i]) simp_all
  have "(1, 14, 20, 310, ''Soft Skills'') \<in>
      set (map (\<lambda>i. (it_page i, it_fontSize i, it_x i, it_y i, it_text i))
        (items (report_document a4 empty_report)))"
    unfolding empty_report_on_a4 by simp
  then obtain j where "j \<in> set (items (report_document a4 empty_report))"
    "it_text j = ''Soft Skills''" "it_page j = 1" "it_y j = 310"
    by auto
  with h show "\<exists>i \<in> set (items (report_document a4 empty_report)).
      it_text i = ''Soft Skills'' \<and> it_page i = 1 \<and> it_y i = 310 \<and>
      page_height a4 - margin < it_y i \<and> page_height a4 < it_y i"
    by (intro bexI [of _ j]) simp_all
  have "(2, 14, 20, 290) \<in>
      set (map (\<lambda>i. (it_page i, it_fontSize i, it_x i, it_y i))
        (items (report_document a4 (simulated_result ''cv.pdf'' []))))"
    using builtin_report_on_a4 by simp
  then obtain k where "k \<in> set (items (report_document a4 (simulated_result ''cv.pdf'' [])))"
    "it_fontSize k = 14" "it_page k = 2" "it_y k = 290"
    by auto
  with h show "\<exists>i \<in> set (items (report_document a4 (simulated_result ''cv.pdf'' []))).
      it_fontSize i = 14 \<and> it_page i = 2 \<and> it_y i = 290 \<and>
      page_height a4 - margin < it_y i"
    by (intro bexI [of _ k]) simp_all
qed

section \<open>Order of the sections\<close>

text \<open>
  C2. For every report the document is, line for line: title, file name, date, score;
  then Readability feedback, the Keyword section (two lines, the found and the missing
  keywords each joined and prefixed), Experience feedback, Education feedback, Impact
  verbs, Industry keywords, Critical, Recommended and Optional suggestions, Hard skills,
  Soft skills, each as its heading followed by its wrapped lines; then the footer. The
  headings therefore appear in that fixed order whatever the report holds.
\<close>

theorem sections_in_fixed_order:
  "outline (report_document env a) =
     [(24, ''Resume Analysis Report''),
      (12, ''File Name: '' @ fileName a),
      (12, ''Analysis Date: '' @ toLocaleDateString env),
      (16, ''Overall ATS Score: '' @ show_int (score a) @ ''/100'')] @
     section_outline env (page_width env) ''Readability Analysis''
       (feedback (readability (detailedAnalysis a))) @
     section_outline env (page_width env) ''Keyword Analysis''
       [''Found Keywords: '' @ join '', '' (found (keyword_analysis (detailedAnalysis a))),
        ''Missing Important Keywords: '' @
          join '', '' (missing (keyword_analysis (detailedAnalysis a)))] @
     section_outline env (page_width env) ''Experience Analysis''
       (feedback (experience (detailedAnalysis a))) @
     section_outline env (page_width env) ''Education Analysis''
       (feedback (education (detailedAnalysis a))) @
     section_outline env (page_width env) ''Impact Verbs Used''
       (impactVerbs (semanticAnalysis a)) @
     section_outline env (page_width env) ''Industry-Specific Keywords''
       (industryKeywords (semanticAnalysis a)) @
     section_outline env (page_width env) ''Critical Improvements Needed''
       (critical (suggestions a)) @
     section_outline env (page_width env) ''Recommended Improvements''
       (recommended (suggestions a)) @
     section_outline env (page_width env) ''Optional Enhancements''
       (optional (suggestions a)) @
     section_outline env (page_width env) ''Hard Skills'' (hardSkills a) @
     section_outline env (page_width env) ''Soft Skills'' (softSkills a) @
     [(10, footerText)] \<and>
   map snd (filter (\<lambda>p. fst p = 14) (outline (report_document env a))) =
     [''Readability Analysis'', ''Keyword Analysis'', ''Experience Analysis'',
      ''Education Analysis'', ''Impact Verbs Used'', ''Industry-Specific Keywords'',
      ''Critical Improvements Needed'', ''Recommended Improvements'',
      ''Optional Enhancements'', ''Hard Skills'', ''Soft Skills'']"
proof
  show first: "outline (report_document env a) =
     [(24, ''Resume Analysis Report''),
      (12, ''File Name: '' @ fileName a),
      (12, ''Analysis Date: '' @ toLocaleDateString env),
      (16, ''Overall ATS Score: '' @ show_int (score a) @ ''/100'')] @
     section_outline env (page_width env) ''Readability Analysis''
       (feedback (readability (detailedAnalysis a))) @
     section_outline env (page_width env) ''Keyword Analysis''
       [''Found Keywords: '' @ join '', '' (found (keyword_analysis (detailedAnalysis a))),
        ''Missing Important Keywords: '' @
          join '', '' (missing (keyword_analysis (detailedAnalysis a)))] @
     section_outline env (page_width env) ''Experience Analysis''
       (feedback (experience (detailedAnalysis a))) @
     section_outline env (page_width env) ''Education Analysis''
       (feedback (education (detailedAnalysis a))) @
     section_outline env (page_width env) ''Impact Verbs Used''
       (impactVerbs (semanticAnalysis a)) @
     section_outline env (page_width env) ''Industry-Specific Keywords''
       (industryKeywords (semanticAnalysis a)) @
     section_outline env (page_width env) ''Critical Improvements Needed''
       (critical (suggestions a)) @
     section_outline env (page_width env) ''Recommended Improvements''
       (recommended (suggestions a)) @
     section_outline env (page_width env) ''Optional Enhancements''
       (optional (suggestions a)) @
     section_outline env (page_width env) ''Hard Skills'' (hardSkills a) @
     section_outline env (page_width env) ''Soft Skills'' (softSkills a) @
     [(10, footerText)]"
    by (simp add: outline_report_document report_sections_def)
  show "map snd (filter (\<lambda>p. fst p = 14) (outline (report_document env a))) =
     [''Readability Analysis'', ''Keyword Analysis'', ''Experience Analysis'',
      ''Education Analysis'', ''Impact Verbs Used'', ''Industry-Specific Keywords'',
      ''Critical Improvements Needed'', ''Recommended Improvements'',
      ''Optional Enhancements'', ''Hard Skills'', ''Soft Skills'']"
    unfolding first by (simp add: headings_of_section)
qed

section \<open>The end-to-end scenario\<close>

text \<open>
  C3, as amended. For a report with score 85, four readability feedback strings, four
  found and three missing keywords, seven hard and seven soft skills and three
  suggestions in each tier, on an A4 page and with a medium that returns at least one
  line for each string, the document has more than one page; its first four lines are
  the title Resume Analysis Report, the file name, the date and the line Overall ATS
  Score: 85/100; and its last line is the centred footer, on the last page.
\<close>

theorem end_to_end_scenario:
  assumes "score a = 85"
    and "length (feedback (readability (detailedAnalysis a))) = 4"
    and "length (found (keyword_analysis (detailedAnalysis a))) = 4"
    and "length (missing (keyword_analysis (detailedAnalysis a))) = 3"
    and "length (hardSkills a) = 7"
    and "length (softSkills a) = 7"
    and "length (critical (suggestions a)) = 3"
    and "length (recommended (suggestions a)) = 3"
    and "length (optional (suggestions a)) = 3"
    and page: "page_height env = page_height a4"
    and lines: "\<forall>s w. splitTextToSize env s w \<noteq> []"
  shows "1 < numPages (report_document env a) \<and>
         take 4 (items (report_document env a)) =
           [\<lparr>it_page = 1, it_text = ''Resume Analysis Report'', it_x = 20, it_y = 20,
              it_fontSize = 24, it_color = (0, 128, 128), it_align = AlignLeft\<rparr>,
            \<lparr>it_page = 1, it_text = ''File Name: '' @ fileName a, it_x = 20, it_y = 40,
              it_fontSize = 12, it_color = (0, 0, 0), it_align = AlignLeft\<rparr>,
            \<lparr>it_page = 1, it_text = ''Analysis Date: '' @ toLocaleDateString env, it_x = 20,
              it_y = 50, it_fontSize = 12, it_color = (0, 0, 0), it_align = AlignLeft\<rparr>,
            \<lparr>it_page = 1, it_text = ''Overall ATS Score: 85/100'', it_x = 20, it_y = 70,
              it_fontSize = 16, it_color = (0, 0, 0), it_align = AlignLeft\<rparr>] \<and>
         last (items (report_document env a)) =
           \<lparr>it_page = numPages (report_document env a), it_text = footerText,
            it_x = page_width env / 2, it_y = page_height env - 10, it_fontSize = 10,
            it_color = (128, 128, 128), it_align = AlignCenter\<rparr>"
proof (intro conjI)
  define pw where "pw = page_width env"
  have ge: "length c \<le> length (wrapped_lines env pw c)" for c
    using lines by (intro wrapped_lines_ge) simp
  define kw where "kw =
     [''Found Keywords: '' @ join '', '' (found (keyword_analysis (detailedAnalysis a))),
      ''Missing Important Keywords: '' @
        join '', '' (missing (keyword_analysis (detailedAnalysis a)))]"
  have "length kw = 2" by (simp add: kw_def)
  with ge [of kw] have k2: "2 \<le> length (wrapped_lines env pw kw)" by simp
  have k1: "4 \<le> length (wrapped_lines env pw (feedback (readability (detailedAnalysis a))))"
    using ge [of "feedback (readability (detailedAnalysis a))"] assms(2) by simp
  have k7: "3 \<le> length (wrapped_lines env pw (critical (suggestions a)))"
    using ge [of "critical (suggestions a)"] assms(7) by simp
  have k8: "3 \<le> length (wrapped_lines env pw (recommended (suggestions a)))"
    using ge [of "recommended (suggestions a)"] assms(8) by simp
  have k9: "3 \<le> length (wrapped_lines env pw (optional (suggestions a)))"
    using ge [of "optional (suggestions a)"] assms(9) by simp
  have k10: "7 \<le> length (wrapped_lines env pw (hardSkills a))"
    using ge [of "hardSkills a"] assms(5) by simp
  have k11: "7 \<le> length (wrapped_lines env pw (softSkills a))"
    using ge [of "softSkills a"] assms(6) by simp
  have "wrapped_line_count env a =
      length (wrapped_lines env pw (feedback (readability (detailedAnalysis a)))) +
      length (wrapped_lines env pw kw) +
      length (wrapped_lines env pw (feedback (experience (detailedAnalysis a)))) +
      length (wrapped_lines env pw (feedback (education (detailedAnalysis a)))) +
      length (wrapped_lines env pw (impactVerbs (semanticAnalysis a))) +
      length (wrapped_lines env pw (industryKeywords (semanticAnalysis a))) +
      length (wrapped_lines env pw (critical (suggestions a))) +
      length (wrapped_lines env pw (recommended (suggestions a))) +
      length (wrapped_lines env pw (optional (suggestions a))) +
      length (wrapped_lines env pw (hardSkills a)) +
      length (wrapped_lines env pw (softSkills a))"
    by (simp add: wrapped_line_count_def report_sections_def pw_def kw_def)
  with k1 k2 k7 k8 k9 k10 k11 have "29 \<le> wrapped_line_count env a" by linarith
  then have n: "wrapped_line_count env a \<noteq> 0"
    and big: "(29::rat) \<le> of_nat (wrapped_line_count env a)" by simp_all
  show "1 < numPages (report_document env a)"
  proof (rule ccontr)
    assume "\<not> 1 < numPages (report_document env a)"
    with report_document_pages [of env a] have "numPages (report_document env a) = 1"
      by linarith
    from one_page_bound [OF this n] page big show False
      by (simp add: a4_def lineHeight_def margin_def)
  qed
  show "take 4 (items (report_document env a)) =
           [\<lparr>it_page = 1, it_text = ''Resume Analysis Report'', it_x = 20, it_y = 20,
              it_fontSize = 24, it_color = (0, 128, 128), it_align = AlignLeft\<rparr>,
            \<lparr>it_page = 1, it_text = ''File Name: '' @ fileName a, it_x = 20, it_y = 40,
              it_fontSize = 12, it_color = (0, 0, 0), it_align = AlignLeft\<rparr>,
            \<lparr>it_page = 1, it_text = ''Analysis Date: '' @ toLocaleDateString env, it_x = 20,
              it_y = 50, it_fontSize = 12, it_color = (0, 0, 0), it_align = AlignLeft\<rparr>,
            \<lparr>it_page = 1, it_text = ''Overall ATS Score: 85/100'', it_x = 20, it_y = 70,
              it_fontSize = 16, it_color = (0, 0, 0), it_align = AlignLeft\<rparr>]"
    by (simp add: report_document_first_four title_and_summary_items assms(1) show_int_85)
  show "last (items (report_document env a)) =
           \<lparr>it_page = numPages (report_document env a), it_text = footerText,
            it_x = page_width env / 2, it_y = page_height env - 10, it_fontSize = 10,
            it_color = (128, 128, 128), it_align = AlignCenter\<rparr>"
    by (simp add: report_document_fields footer_item_def)
qed

theorem end_to_end_scenario_witness:
  "score (simulated_result ''cv.pdf'' []) = 85 \<and>
   page_height a4 = 3564001 / 12000 \<and>
   1 < numPages (report_document a4 (simulated_result ''cv.pdf'' [])) \<and>
   it_text (items (report_document a4 (simulated_result ''cv.pdf'' [])) ! 3) =
     ''Overall ATS Score: 85/100'' \<and>
   it_text (last (items (report_document a4 (simulated_result ''cv.pdf'' [])))) =
     ''Generated by Resume Check - Comprehensive ATS Analysis Report''"
proof -
  let ?a = "simulated_result ''cv.pdf'' []"
  have lines: "\<forall>s w. splitTextToSize a4 s w \<noteq> []" by (simp add: a4_def no_wrap_def)
  have "1 < numPages (report_document a4 ?a) \<and>
         take 4 (items (report_document a4 ?a)) =
           [\<lparr>it_page = 1, it_text = ''Resume Analysis Report'', it_x = 20, it_y = 20,
              it_fontSize = 24, it_color = (0, 128, 128), it_align = AlignLeft\<rparr>,
            \<lparr>it_page = 1, it_text = ''File Name: '' @ fileName ?a, it_x = 20, it_y = 40,
              it_fontSize = 12, it_color = (0, 0, 0), it_align = AlignLeft\<rparr>,
            \<lparr>it_page = 1, it_text = ''Analysis Date: '' @ toLocaleDateString a4, it_x = 20,
              it_y = 50, it_fontSize = 12, it_color = (0, 0, 0), it_align = AlignLeft\<rparr>,
            \<lparr>it_page = 1, it_text = ''Overall ATS Score: 85/100'', it_x = 20, it_y = 70,
              it_fontSize = 16, it_color = (0, 0, 0), it_align = AlignLeft\<rparr>] \<and>
         last (items (report_document a4 ?a)) =
           \<lparr>it_page = numPages (report_document a4 ?a), it_text = footerText,
            it_x = page_width a4 / 2, it_y = page_height a4 - 10, it_fontSize = 10,
            it_color = (128, 128, 128), it_align = AlignCenter\<rparr>"
    by (rule end_to_end_scenario [OF _ _ _ _ _ _ _ _ _ refl lines])
       (simp_all add: simulated_result_def)
  then have pages: "1 < numPages (report_document a4 ?a)"
    and first: "take 4 (items (report_document a4 ?a)) ! 3 =
       \<lparr>it_page = 1, it_text = ''Overall ATS Score: 85/100'', it_x = 20, it_y = 70,
              it_fontSize = 16, it_color = (0, 0, 0), it_align = AlignLeft\<rparr>"
    and final: "it_text (last (items (report_document a4 ?a))) = footerText"
    by simp_all
  from first have "it_text (items (report_document a4 ?a) ! 3) = ''Overall ATS Score: 85/100''"
    by simp
  with pages final show ?thesis
    by (simp add: footerText_def) (simp add: simulated_result_def a4_def)
qed

text \<open>
  The claim as stated, exactly one page, fails: with one line per item the built-in
  report takes three pages.
\<close>

theorem builtin_report_has_three_pages:
  "numPages (report_document a4 (simulated_result ''cv.pdf'' [])) = 3"
  using builtin_report_on_a4 by simp

section \<open>Rendering twice\<close>

text \<open>
  C4. Invoking the handler twice on the same stored report, on days whose date strings
  may differ, offers two files; their documents are equal once the timestamp line is
  left out of both (same pages, same texts, same positions and styles), and the
  timestamp line is the only line left out. Nothing of the first call reaches the
  second: each document is a function of the report and the medium alone.
\<close>

theorem rendering_twice:
  assumes "analysis s = Some a"
  shows "handleDownloadReport (env\<lparr>toLocaleDateString := later\<rparr>) s
           (handleDownloadReport (env\<lparr>toLocaleDateString := today\<rparr>) s ds) =
         ds @ [(''detailed-resume-analysis.pdf'',
                 report_document (env\<lparr>toLocaleDateString := today\<rparr>) a),
               (''detailed-resume-analysis.pdf'',
                 report_document (env\<lparr>toLocaleDateString := later\<rparr>) a)] \<and>
         exclude_timestamp (report_document (env\<lparr>toLocaleDateString := today\<rparr>) a) =
         exclude_timestamp (report_document (env\<lparr>toLocaleDateString := later\<rparr>) a) \<and>
         length (items (exclude_timestamp (report_document (env\<lparr>toLocaleDateString := today\<rparr>) a)))
           + 1 = length (items (report_document (env\<lparr>toLocaleDateString := today\<rparr>) a))"
proof (intro conjI)
  show "handleDownloadReport (env\<lparr>toLocaleDateString := later\<rparr>) s
           (handleDownloadReport (env\<lparr>toLocaleDateString := today\<rparr>) s ds) =
         ds @ [(''detailed-resume-analysis.pdf'',
                 report_document (env\<lparr>toLocaleDateString := today\<rparr>) a),
               (''detailed-resume-analysis.pdf'',
                 report_document (env\<lparr>toLocaleDateString := later\<rparr>) a)]"
    using assms by (simp add: handleDownloadReport_def save_def)
  show "exclude_timestamp (report_document (env\<lparr>toLocaleDateString := today\<rparr>) a) =
         exclude_timestamp (report_document (env\<lparr>toLocaleDateString := later\<rparr>) a)"
    by (simp only: exclude_timestamp_report after_summary_date)
  show "length (items (exclude_timestamp (report_document (env\<lparr>toLocaleDateString := today\<rparr>) a)))
           + 1 = length (items (report_document (env\<lparr>toLocaleDateString := today\<rparr>) a))"
    unfolding exclude_timestamp_report
    by (simp add: after_summary_no_timestamp report_document_prepend)
qed

theorem rendering_twice_witness:
  "analysis (analyzeResume cv_file [] initial_state) = Some (simulated_result ''cv.pdf'' []) \<and>
   map fst (handleDownloadReport (a4\<lparr>toLocaleDateString := ''11/3/2026''\<rparr>)
      (analyzeResume cv_file [] initial_state)
      (handleDownloadReport (a4\<lparr>toLocaleDateString := ''11/2/2026''\<rparr>)
         (analyzeResume cv_file [] initial_state) [])) =
     [''detailed-resume-analysis.pdf'', ''detailed-resume-analysis.pdf''] \<and>
   exclude_timestamp
     (report_document (a4\<lparr>toLocaleDateString := ''11/2/2026''\<rparr>) (simulated_result ''cv.pdf'' [])) =
   exclude_timestamp
     (report_document (a4\<lparr>toLocaleDateString := ''11/3/2026''\<rparr>) (simulated_result ''cv.pdf'' []))"
proof -
  have h: "analysis (analyzeResume cv_file [] initial_state) = Some (simulated_result ''cv.pdf'' [])"
    by (simp add: analyzeResume_def cv_file_def)
  from rendering_twice [OF h, where env = a4 and today = "''11/2/2026''" and later = "''11/3/2026''"
      and ds = "[]"] h
  show ?thesis by simp
qed

section \<open>Empty sections\<close>

text \<open>
  C5, as amended. For a report in which every list field is empty the document still
  has the title, the score line and all eleven headings; its only bulleted lines are
  those of the Keyword section, which always passes two prefixed strings; no page break
  is inserted as long as those lines fit the first page; and a section with empty
  content draws its heading and advances the cursor by two line heights, with no
  page-break check and no new page.
\<close>

theorem empty_sections:
  assumes empty: "all_lists_empty a"
  shows "outline (report_document env a) =
           [(24, ''Resume Analysis Report''),
            (12, ''File Name: '' @ fileName a),
            (12, ''Analysis Date: '' @ toLocaleDateString env),
            (16, ''Overall ATS Score: '' @ show_int (score a) @ ''/100''),
            (14, ''Readability Analysis''),
            (14, ''Keyword Analysis'')] @
           map (\<lambda>l. (12, bulleted l))
             (wrapped_lines env (page_width env)
                [''Found Keywords: '', ''Missing Important Keywords: '']) @
           [(14, ''Experience Analysis''), (14, ''Education Analysis''),
            (14, ''Impact Verbs Used''), (14, ''Industry-Specific Keywords''),
            (14, ''Critical Improvements Needed''), (14, ''Recommended Improvements''),
            (14, ''Optional Enhancements''), (14, ''Hard Skills''), (14, ''Soft Skills''),
            (10, footerText)] \<and>
         (110 + lineHeight * of_nat (length (wrapped_lines env (page_width env)
                [''Found Keywords: '', ''Missing Important Keywords: '']))
            \<le> page_height env - margin \<longrightarrow>
          numPages (report_document env a) = 1) \<and>
         (\<forall>pw t st.
            yPos (addSection env pw t [] st) = yPos st + lineHeight + lineHeight \<and>
            numPages (doc (addSection env pw t [] st)) = numPages (doc st) \<and>
            items (doc (addSection env pw t [] st)) =
              items (doc st) @
                [\<lparr>it_page = numPages (doc st), it_text = t, it_x = margin, it_y = yPos st,
                  it_fontSize = 14, it_color = (0, 128, 128), it_align = AlignLeft\<rparr>])"
proof (intro conjI impI)
  note secs = report_sections_empty [OF empty]
  show "outline (report_document env a) =
           [(24, ''Resume Analysis Report''),
            (12, ''File Name: '' @ fileName a),
            (12, ''Analysis Date: '' @ toLocaleDateString env),
            (16, ''Overall ATS Score: '' @ show_int (score a) @ ''/100''),
            (14, ''Readability Analysis''),
            (14, ''Keyword Analysis'')] @
           map (\<lambda>l. (12, bulleted l))
             (wrapped_lines env (page_width env)
                [''Found Keywords: '', ''Missing Important Keywords: '']) @
           [(14, ''Experience Analysis''), (14, ''Education Analysis''),
            (14, ''Impact Verbs Used''), (14, ''Industry-Specific Keywords''),
            (14, ''Critical Improvements Needed''), (14, ''Recommended Improvements''),
            (14, ''Optional Enhancements''), (14, ''Hard Skills''), (14, ''Soft Skills''),
            (10, footerText)]"
    unfolding outline_report_document secs
    by (simp add: section_outline_def) (simp add: wrapped_lines_def)
  show "\<forall>pw t st.
            yPos (addSection env pw t [] st) = yPos st + lineHeight + lineHeight \<and>
            numPages (doc (addSection env pw t [] st)) = numPages (doc st) \<and>
            items (doc (addSection env pw t [] st)) =
              items (doc st) @
                [\<lparr>it_page = numPages (doc st), it_text = t, it_x = margin, it_y = yPos st,
                  it_fontSize = 14, it_color = (0, 128, 128), it_align = AlignLeft\<rparr>]"
    by (simp add: addSection_empty)
next
  define pw where "pw = page_width env"
  define kw where "kw = [''Found Keywords: '', ''Missing Important Keywords: '']"
  assume "110 + lineHeight * of_nat (length (wrapped_lines env (page_width env)
                [''Found Keywords: '', ''Missing Important Keywords: '']))
            \<le> page_height env - margin"
  then have room: "110 + lineHeight * of_nat (length (wrapped_lines env pw kw))
      \<le> page_height env - margin"
    by (simp add: pw_def kw_def)
  define s1 where "s1 = addSection env pw ''Readability Analysis'' [] (title_and_summary env a)"
  have s1: "numPages (doc s1) = 1" "yPos s1 = 110" "pageHeight (doc s1) = page_height env"
    by (simp_all add: s1_def addSection_empty addSection_fields title_and_summary_layout
        lineHeight_def)
  define s2 where "s2 = addSection env pw ''Keyword Analysis'' kw s1"
  have s2: "numPages (doc s2) = 1"
    unfolding s2_def using room by (subst addSection_fits) (simp_all add: s1)
  have "sections_done env a =
      add_sections env pw
        [(''Experience Analysis'', []), (''Education Analysis'', []),
         (''Impact Verbs Used'', []), (''Industry-Specific Keywords'', []),
         (''Critical Improvements Needed'', []), (''Recommended Improvements'', []),
         (''Optional Enhancements'', []), (''Hard Skills'', []), (''Soft Skills'', [])] s2"
    by (simp add: sections_done_def report_sections_empty [OF empty] add_sections_def
        s2_def s1_def pw_def kw_def)
  then have "numPages (doc (sections_done env a)) = numPages (doc s2)"
    by (simp add: add_sections_def addSection_empty)
  with s2 show "numPages (report_document env a) = 1"
    by (simp add: report_document_fields)
qed

theorem empty_sections_witness:
  "all_lists_empty empty_report \<and>
   numPages (report_document a4 empty_report) = 1 \<and>
   map snd (filter (\<lambda>p. fst p = 14) (outline (report_document a4 empty_report))) =
     [''Readability Analysis'', ''Keyword Analysis'', ''Experience Analysis'',
      ''Education Analysis'', ''Impact Verbs Used'', ''Industry-Specific Keywords'',
      ''Critical Improvements Needed'', ''Recommended Improvements'',
      ''Optional Enhancements'', ''Hard Skills'', ''Soft Skills''] \<and>
   map snd (filter (\<lambda>p. fst p = 12) (outline (report_document a4 empty_report))) =
     [''File Name: cv.pdf'', ''Analysis Date: 11/2/2026'',
      bulleted ''Found Keywords: '', bulleted ''Missing Important Keywords: '']"
proof -
  have e: "all_lists_empty empty_report" by (simp add: all_lists_empty_def empty_report_def)
  have w: "wrapped_lines a4 (page_width a4)
      [''Found Keywords: '', ''Missing Important Keywords: ''] =
      [''Found Keywords: '', ''Missing Important Keywords: '']"
    by (simp add: wrapped_lines_def a4_def no_wrap_def)
  have room: "110 + lineHeight * of_nat (length (wrapped_lines a4 (page_width a4)
      [''Found Keywords: '', ''Missing Important Keywords: ''])) \<le> page_height a4 - margin"
    unfolding w by (simp add: a4_def lineHeight_def margin_def)
  from empty_sections [OF e, of a4] room e show ?thesis
    unfolding w by (simp add: empty_report_def a4_def)
qed

text \<open>
  The claim as stated, no bulleted content lines at all, fails: the report with every
  list empty is rendered with two bulleted lines, the prefixes of the Keyword section.
\<close>

theorem keyword_lines_always_drawn:
  "map it_text (filter is_content (items (report_document a4 empty_report))) =
     [bulleted ''Found Keywords: '', bulleted ''Missing Important Keywords: '']"
proof -
  have ic: "is_content = (\<lambda>i. it_x i = 25 \<and> it_fontSize i = 12)"
    by (rule ext) (simp add: is_content_def margin_def)
  have "map it_text (filter is_content (items (report_document a4 empty_report))) =
      map (\<lambda>(p, s, x, y, t). t) (filter (\<lambda>(p, s, x, y, t). x = 25 \<and> s = 12)
        (map (\<lambda>i. (it_page i, it_fontSize i, it_x i, it_y i, it_text i))
          (items (report_document a4 empty_report))))"
    unfolding ic by (simp add: filter_map o_def)
  then show ?thesis unfolding empty_report_on_a4 by simp
qed

section \<open>Word wrap\<close>




section \<open>The footer\<close>

text \<open>
  C7. For every report the footer is the last line drawn, after all sections: centred,
  size 10, grey, at ten units above the bottom of the page that is current when the
  sections are done. No line before it has its text, size, centring or colour, so it is
  drawn exactly once and on no earlier page.
\<close>

theorem footer_drawn_once:
  "items (report_document env a) \<noteq> [] \<and>
   last (items (report_document env a)) =
     \<lparr>it_page = numPages (report_document env a), it_text = footerText,
      it_x = page_width env / 2, it_y = page_height env - 10, it_fontSize = 10,
      it_color = (128, 128, 128), it_align = AlignCenter\<rparr> \<and>
   butlast (items (report_document env a)) =
     items (doc (add_all_sections env (page_width env) a (title_and_summary env a))) \<and>
   filter footer_like (butlast (items (report_document env a))) = [] \<and>
   length (filter footer_like (items (report_document env a))) = 1"
proof -
  have "add_all_sections env (page_width env) a (title_and_summary env a) = sections_done env a"
    by (simp add: add_all_sections_fold sections_done_def)
  then show ?thesis
    by (simp add: report_document_fields sections_done_no_footer footer_item_def
        footer_like_def)
qed

section \<open>The download handler without and with an analysis\<close>

text \<open>
  C10. With no analysis report present (the stored analysis is null) the download
  operation returns at once: the list of files offered for download is unchanged, so no
  document was built and no save was triggered.
\<close>

theorem handleDownloadReport_no_analysis:
  "analysis s = None \<Longrightarrow> handleDownloadReport env s ds = ds"
  by (simp add: handleDownloadReport_def)

theorem handleDownloadReport_no_analysis_witness:
  "analysis initial_state = None \<and> handleDownloadReport a4 initial_state [] = []"
  using handleDownloadReport_no_analysis [of initial_state a4 "[]"]
  by (simp add: initial_state_def)

text \<open>
  C8. Every invocation that has a report to render offers exactly one new file, under
  the name detailed-resume-analysis.pdf and no other: the downloads grow by one entry,
  whose name is that name and whose document is the rendered report.
\<close>

theorem handleDownloadReport_file_name:
  "analysis s = Some a \<Longrightarrow>
     handleDownloadReport env s ds =
       ds @ [(''detailed-resume-analysis.pdf'', report_document env a)] \<and>
     map fst (handleDownloadReport env s ds) = map fst ds @ [''detailed-resume-analysis.pdf'']"
  by (simp add: handleDownloadReport_def save_def)

theorem handleDownloadReport_file_name_witness:
  "analysis (analyzeResume cv_file [] initial_state) = Some (simulated_result ''cv.pdf'' []) \<and>
   map fst (handleDownloadReport a4 (analyzeResume cv_file [] initial_state) []) =
     [''detailed-resume-analysis.pdf'']"
  using handleDownloadReport_file_name
    [of "analyzeResume cv_file [] initial_state" "simulated_result ''cv.pdf'' []" a4 "[]"]
  by (simp add: analyzeResume_def cv_file_def)

section \<open>The analysis producer is a constant\<close>

text \<open>
  C9. For every uploaded file the analysis producer stores a report that, apart from
  fileName and filePreview, is one fixed structure: overall score 85, readability 90,
  keywords 85, experience 88, education 95 and the same string lists, whatever the
  file's content (two uploads give reports that agree once the two fields are blanked).
\<close>

theorem analyzeResume_constant:
  "\<exists>r. analysis (analyzeResume f p s) = Some r \<and>
        fileName r = file_name f \<and> filePreview r = p \<and>
        r\<lparr>fileName := [], filePreview := []\<rparr> = simulated_result [] [] \<and>
        score r = 85 \<and>
        fb_score (readability (detailedAnalysis r)) = 90 \<and>
        kw_score (keyword_analysis (detailedAnalysis r)) = 85 \<and>
        fb_score (experience (detailedAnalysis r)) = 88 \<and>
        fb_score (education (detailedAnalysis r)) = 95 \<and>
        map_option (\<lambda>x. x\<lparr>fileName := [], filePreview := []\<rparr>) (analysis (analyzeResume f p s)) =
        map_option (\<lambda>x. x\<lparr>fileName := [], filePreview := []\<rparr>) (analysis (analyzeResume f' p' s'))"
  by (simp add: analyzeResume_def simulated_result_def)

end
